theory Spec2Isabelle
  imports Complex_Main
begin

section \<open>Exceptions\<close>

text \<open>
  The exceptions that occur in the modelled code.  The first four are the classes of
  \<open>llm_port.py\<close> (\<open>LLMError\<close> and its three subclasses); the \<open>OpenAI_\<close> constructors are
  the exception classes of the OpenAI client library that \<open>openai_adapter.py\<close> names;
  \<open>AsyncioTimeoutError\<close> is \<open>asyncio.TimeoutError\<close>; \<open>OtherException\<close> is any other
  subclass of \<open>Exception\<close>.  Each carries its message, the text \<open>str(e)\<close>.
\<close>

datatype exn =
    LLMError string
  | LLMTimeoutError string
  | LLMRateLimitError string
  | LLMQuotaExceededError string
  | ValueError string
  | KeyError string
  | AttributeError string
  | IndexError string
  | TypeError string
  | AsyncioTimeoutError
  | OpenAI_RateLimitError string
  | OpenAI_APITimeoutError string
  | OpenAI_APIConnectionError string
  | OpenAI_AuthenticationError string
  | OpenAI_PermissionDeniedError string
  | OpenAI_NotFoundError string
  | OpenAI_BadRequestError string
  | OtherException string

text \<open>\<open>isinstance(e, LLMError)\<close>: the base class and its subclasses.\<close>

fun is_LLMError :: "exn \<Rightarrow> bool" where
  "is_LLMError (LLMError m) = True"
| "is_LLMError (LLMTimeoutError m) = True"
| "is_LLMError (LLMRateLimitError m) = True"
| "is_LLMError (LLMQuotaExceededError m) = True"
| "is_LLMError e = False"

text \<open>The text \<open>str(e)\<close> of an exception.\<close>

fun str_exn :: "exn \<Rightarrow> string" where
  "str_exn (LLMError m) = m"
| "str_exn (LLMTimeoutError m) = m"
| "str_exn (LLMRateLimitError m) = m"
| "str_exn (LLMQuotaExceededError m) = m"
| "str_exn (ValueError m) = m"
| "str_exn (KeyError m) = m"
| "str_exn (AttributeError m) = m"
| "str_exn (IndexError m) = m"
| "str_exn (TypeError m) = m"
| "str_exn AsyncioTimeoutError = []"
| "str_exn (OpenAI_RateLimitError m) = m"
| "str_exn (OpenAI_APITimeoutError m) = m"
| "str_exn (OpenAI_APIConnectionError m) = m"
| "str_exn (OpenAI_AuthenticationError m) = m"
| "str_exn (OpenAI_PermissionDeniedError m) = m"
| "str_exn (OpenAI_NotFoundError m) = m"
| "str_exn (OpenAI_BadRequestError m) = m"
| "str_exn (OtherException m) = m"

text \<open>The failure taxonomy of the specification, read off the class of an \<open>LLMError\<close>.\<close>

datatype ErrorKind = Generic | Timeout | RateLimited | QuotaExceeded

fun error_kind :: "exn \<Rightarrow> ErrorKind option" where
  "error_kind (LLMError m) = Some Generic"
| "error_kind (LLMTimeoutError m) = Some Timeout"
| "error_kind (LLMRateLimitError m) = Some RateLimited"
| "error_kind (LLMQuotaExceededError m) = Some QuotaExceeded"
| "error_kind e = None"

text \<open>
  A loop or comprehension whose body may raise: the results in order, or the first
  exception.
\<close>

fun collect :: "('a \<Rightarrow> exn + 'b) \<Rightarrow> 'a list \<Rightarrow> exn + 'b list" where
  "collect f [] = Inr []"
| "collect f (x # xs) =
     (case f x of
        Inl e \<Rightarrow> Inl e
      | Inr y \<Rightarrow> (case collect f xs of Inl e \<Rightarrow> Inl e | Inr ys \<Rightarrow> Inr (y # ys)))"

section \<open>Python strings\<close>

text \<open>
  A string is a list of characters, a character being a code point below 256 (Latin-1).
  The code applies \<open>str.lower\<close>, \<open>str.strip\<close>, \<open>len\<close>, \<open>str.join\<close> and the substring
  test \<open>needle in text\<close> to its texts.
\<close>

fun starts_with :: "string \<Rightarrow> string \<Rightarrow> bool" where
  "starts_with [] text = True"
| "starts_with (c # cs) [] = False"
| "starts_with (c # cs) (d # ds) = (c = d \<and> starts_with cs ds)"

text \<open>\<open>py_in needle text\<close> is Python's \<open>needle in text\<close>.\<close>

fun py_in :: "string \<Rightarrow> string \<Rightarrow> bool" where
  "py_in needle [] = (needle = [])"
| "py_in needle (d # ds) = (starts_with needle (d # ds) \<or> py_in needle ds)"

text \<open>
  \<open>str.lower\<close> on these characters: the letters A to Z and the accented capitals 192 to 222
  (but the multiplication sign 215) move up by 32.
\<close>

definition lower_char :: "char \<Rightarrow> char" where
  "lower_char c =
     (let n = (of_char c :: nat)
      in if (65 \<le> n \<and> n \<le> 90) \<or> (192 \<le> n \<and> n \<le> 222 \<and> n \<noteq> 215)
         then char_of (n + 32) else c)"

definition lower :: "string \<Rightarrow> string" where
  "lower s = map lower_char s"

text \<open>The characters \<open>str.strip\<close> removes (\<open>str.isspace\<close>).\<close>

definition isspace :: "char \<Rightarrow> bool" where
  "isspace c =
     (let n = (of_char c :: nat)
      in (9 \<le> n \<and> n \<le> 13) \<or> (28 \<le> n \<and> n \<le> 32) \<or> n = 133 \<or> n = 160)"

definition strip :: "string \<Rightarrow> string" where
  "strip s = rev (dropWhile isspace (rev (dropWhile isspace s)))"

definition newline :: string where
  "newline = [CHR 0x0A]"

text \<open>\<open>sep.join(parts)\<close>.\<close>

fun join :: "string \<Rightarrow> string list \<Rightarrow> string" where
  "join sep [] = []"
| "join sep [x] = x"
| "join sep (x # y # ys) = x @ sep @ join sep (y # ys)"

section \<open>Entities\<close>

datatype LLMProvider = GEMINI | GROQ | OPENAI | CLAUDE

text \<open>
  \<open>ResponseMetrics\<close> (\<open>analytics.py\<close>) with the check of its \<open>__post_init__\<close>.  Wall-clock
  times and costs are Python floats; they are modelled as exact reals.
\<close>

record ResponseMetrics =
  response_time_ms :: real
  tokens_used :: int
  tokens_input :: int
  tokens_output :: int
  metrics_provider :: LLMProvider
  metrics_model_name :: string
  cost_usd :: real

definition make_ResponseMetrics :: "ResponseMetrics \<Rightarrow> exn + ResponseMetrics" where
  "make_ResponseMetrics m =
     (if response_time_ms m < 0 then Inl (ValueError ''Response time cannot be negative'')
      else if tokens_used m < 0 then Inl (ValueError ''Token usage cannot be negative'')
      else if cost_usd m < 0 then Inl (ValueError ''Cost cannot be negative'')
      else Inr m)"

text \<open>
  The context of a request is a dictionary in insertion order.  A value of it is a text
  or a list; an element of a list is a dictionary from field names to texts (a message
  of the conversation history) or a value that is no dictionary, given by its \<open>str\<close>.
\<close>

type_synonym message = "(string \<times> string) list"

datatype item = Msg message | Other string

datatype ctx_value = ListV "item list" | Scalar string

record LLMRequest =
  prompt :: string
  req_context :: "(string \<times> ctx_value) list"
  max_tokens :: "int option"
  temperature :: real
  request_model_name :: "string option"

definition make_LLMRequest :: "LLMRequest \<Rightarrow> exn + LLMRequest" where
  "make_LLMRequest r =
     (if strip (prompt r) = [] then Inl (ValueError ''Prompt cannot be empty'')
      else if \<not> (0 \<le> temperature r \<and> temperature r \<le> 2)
        then Inl (ValueError ''Temperature must be between 0.0 and 2.0'')
      else if (case max_tokens r of None \<Rightarrow> False | Some n \<Rightarrow> n < 1)
        then Inl (ValueError ''Max tokens must be positive'')
      else Inr r)"

text \<open>
  The content handed to \<open>LLMResponse\<close> comes from a backend and may be \<open>None\<close>, on which
  \<open>self.content.strip()\<close> raises \<open>AttributeError\<close>.
\<close>

record LLMResponse =
  content :: string
  provider :: LLMProvider
  model_name :: string
  metrics :: ResponseMetrics

definition make_LLMResponse ::
  "string option \<Rightarrow> LLMProvider \<Rightarrow> string \<Rightarrow> ResponseMetrics \<Rightarrow> exn + LLMResponse" where
  "make_LLMResponse c p mn ms =
     (case c of
        None \<Rightarrow> Inl (AttributeError ''NoneType object has no attribute strip'')
      | Some text \<Rightarrow>
          if strip text = [] then Inl (ValueError ''Response content cannot be empty'')
          else Inr \<lparr>content = text, provider = p, model_name = mn, metrics = ms\<rparr>)"

section \<open>The provider port and the fallback repository (llm\_port.py)\<close>

text \<open>
  A provider as the repository sees it during one call: what its \<open>health_check\<close> does and
  what its \<open>generate_response\<close> does on a request, each a returned value or a raised
  exception.  The repository calls each provider at most once per operation.
\<close>

record LLMPort =
  health_check :: "exn + bool"
  generate_response :: "LLMRequest \<Rightarrow> exn + LLMResponse"

definition configured :: "(LLMProvider \<rightharpoonup> LLMPort) \<Rightarrow> LLMProvider \<Rightarrow> bool" where
  "configured ps p = (case ps p of None \<Rightarrow> False | Some a \<Rightarrow> True)"

definition priority_order :: "LLMProvider list" where
  "priority_order = [GEMINI, GROQ, OPENAI, CLAUDE]"

record LLMRepository =
  providers :: "LLMProvider \<rightharpoonup> LLMPort"
  fallback_order :: "LLMProvider list"

definition LLMRepository_init :: "(LLMProvider \<rightharpoonup> LLMPort) \<Rightarrow> LLMRepository" where
  "LLMRepository_init ps =
     \<lparr>providers = ps,
      fallback_order = filter (\<lambda>p. configured ps p) [GEMINI, GROQ, OPENAI, CLAUDE]\<rparr>"

definition get_provider_order :: "LLMRepository \<Rightarrow> LLMProvider option \<Rightarrow> LLMProvider list" where
  "get_provider_order repo preferred_provider =
     (case preferred_provider of
        Some pp \<Rightarrow>
          if configured (providers repo) pp
          then [pp] @ filter (\<lambda>p. p \<noteq> pp \<and> configured (providers repo) p) (fallback_order repo)
          else filter (\<lambda>p. configured (providers repo) p) (fallback_order repo)
      | None \<Rightarrow> filter (\<lambda>p. configured (providers repo) p) (fallback_order repo))"

text \<open>
  The calls the repository makes on its providers are recorded in a log, so that
  statements about which provider was health-checked or invoked can be made.
\<close>

datatype call = HealthCheck LLMProvider | Generate LLMProvider

text \<open>
  The loop of \<open>generate_with_fallback\<close> over the remaining candidates, with the variable
  \<open>last_error\<close>.  An exception that is no \<open>LLMError\<close> is caught by neither \<open>except\<close> clause
  and leaves the function at once.
\<close>

fun fallback_loop ::
  "(LLMProvider \<rightharpoonup> LLMPort) \<Rightarrow> LLMRequest \<Rightarrow> LLMProvider list \<Rightarrow> exn option \<Rightarrow> call list
     \<Rightarrow> (exn + LLMResponse) \<times> call list" where
  "fallback_loop ps request [] last_error calls =
     (case last_error of
        Some e \<Rightarrow> (Inl e, calls)
      | None \<Rightarrow> (Inl (LLMError ''All LLM providers are unavailable''), calls))"
| "fallback_loop ps request (provider_type # rest) last_error calls =
     (case ps provider_type of
        None \<Rightarrow> fallback_loop ps request rest last_error calls
      | Some port \<Rightarrow>
          (case health_check port of
             Inl e \<Rightarrow>
               if is_LLMError e
               then fallback_loop ps request rest (Some e) (calls @ [HealthCheck provider_type])
               else (Inl e, calls @ [HealthCheck provider_type])
           | Inr healthy \<Rightarrow>
               if \<not> healthy
               then fallback_loop ps request rest last_error (calls @ [HealthCheck provider_type])
               else
                 (case generate_response port request of
                    Inr response \<Rightarrow>
                      (Inr response, calls @ [HealthCheck provider_type, Generate provider_type])
                  | Inl e \<Rightarrow>
                      if is_LLMError e
                      then fallback_loop ps request rest (Some e)
                             (calls @ [HealthCheck provider_type, Generate provider_type])
                      else (Inl e, calls @ [HealthCheck provider_type, Generate provider_type]))))"

definition generate_with_fallback ::
  "LLMRepository \<Rightarrow> LLMRequest \<Rightarrow> LLMProvider option \<Rightarrow> (exn + LLMResponse) \<times> call list" where
  "generate_with_fallback repo request preferred_provider =
     fallback_loop (providers repo) request (get_provider_order repo preferred_provider) None []"

subsection \<open>Vocabulary of the statements about the fallback\<close>

text \<open>
  A candidate fails when its health check returns \<open>False\<close> (it is skipped), or it is
  healthy and its \<open>generate_response\<close> raises one of the \<open>LLMError\<close> classes.
\<close>

definition provider_fails :: "(LLMProvider \<rightharpoonup> LLMPort) \<Rightarrow> LLMRequest \<Rightarrow> LLMProvider \<Rightarrow> bool" where
  "provider_fails ps request pt =
     (case ps pt of
        None \<Rightarrow> False
      | Some a \<Rightarrow>
          (case health_check a of
             Inl e \<Rightarrow> False
           | Inr healthy \<Rightarrow>
               if \<not> healthy then True
               else (case generate_response a request of
                       Inl e \<Rightarrow> is_LLMError e
                     | Inr r \<Rightarrow> False)))"

definition provider_succeeds ::
  "(LLMProvider \<rightharpoonup> LLMPort) \<Rightarrow> LLMRequest \<Rightarrow> LLMProvider \<Rightarrow> LLMResponse \<Rightarrow> bool" where
  "provider_succeeds ps request pt r =
     (case ps pt of
        None \<Rightarrow> False
      | Some a \<Rightarrow> health_check a = Inr True \<and> generate_response a request = Inr r)"

text \<open>The calls one attempt on a configured candidate consists of.\<close>

definition attempt_calls :: "(LLMProvider \<rightharpoonup> LLMPort) \<Rightarrow> LLMProvider \<Rightarrow> call list" where
  "attempt_calls ps pt =
     (case ps pt of
        None \<Rightarrow> []
      | Some a \<Rightarrow>
          (case health_check a of
             Inr True \<Rightarrow> [HealthCheck pt, Generate pt]
           | _ \<Rightarrow> [HealthCheck pt]))"

text \<open>The failures of \<open>generate_response\<close> along a list of candidates, in order.\<close>

definition generate_failures ::
  "(LLMProvider \<rightharpoonup> LLMPort) \<Rightarrow> LLMRequest \<Rightarrow> LLMProvider list \<Rightarrow> exn list" where
  "generate_failures ps request order =
     concat (map (\<lambda>pt. case ps pt of
                          None \<Rightarrow> []
                        | Some a \<Rightarrow>
                            (case health_check a of
                               Inr True \<Rightarrow>
                                 (case generate_response a request of Inl e \<Rightarrow> [e] | Inr r \<Rightarrow> [])
                             | _ \<Rightarrow> [])) order)"

text \<open>
  The contract of \<open>LLMPort\<close> as its docstrings give it: \<open>health_check\<close> returns a Boolean,
  and \<open>generate_response\<close> raises only \<open>LLMError\<close> and its subclasses.
\<close>

definition port_contract :: "LLMPort \<Rightarrow> LLMRequest \<Rightarrow> bool" where
  "port_contract a request =
     ((case health_check a of Inl e \<Rightarrow> False | Inr b \<Rightarrow> True) \<and>
      (case generate_response a request of Inl e \<Rightarrow> is_LLMError e | Inr r \<Rightarrow> True))"

section \<open>The cache repository and the rate limiter (cache\_repository.py, rate\_limiter.py)\<close>

text \<open>
  The Redis client as the cache repository sees it: the outcome of each command, a value
  or a raised exception.  A stored value is a counter (the decimal text of an integer, on
  which \<open>int\<close> succeeds) or another text (on which \<open>int\<close> raises \<open>ValueError\<close>).
\<close>

datatype redis_value = Counter int | Text string

record redis_client =
  redis_ping :: "exn + unit"
  redis_get :: "string \<Rightarrow> exn + redis_value option"
  redis_incrby :: "string \<Rightarrow> int \<Rightarrow> exn + int"
  redis_expire :: "string \<Rightarrow> int \<Rightarrow> exn + bool"

text \<open>
  \<open>RedisCacheRepository\<close>: the flag \<open>_connected\<close> and the client \<open>_redis\<close> that
  \<open>redis.from_url\<close> gives.  Every method first calls \<open>_ensure_connected\<close> and catches the
  exceptions of the client.
\<close>

record RedisCacheRepository =
  connected :: bool
  redis :: redis_client

definition ensure_connected :: "RedisCacheRepository \<Rightarrow> RedisCacheRepository" where
  "ensure_connected repo =
     (if connected repo then repo
      else (case redis_ping (redis repo) of
              Inr u \<Rightarrow> repo\<lparr>connected := True\<rparr>
            | Inl e \<Rightarrow> repo\<lparr>connected := False\<rparr>))"

definition cache_get ::
  "RedisCacheRepository \<Rightarrow> string \<Rightarrow> redis_value option \<times> RedisCacheRepository" where
  "cache_get repo key =
     (let repo' = ensure_connected repo in
      if \<not> connected repo' then (None, repo')
      else (case redis_get (redis repo') key of
              Inr v \<Rightarrow> (v, repo')
            | Inl e \<Rightarrow> (None, repo')))"

definition cache_increment ::
  "RedisCacheRepository \<Rightarrow> string \<Rightarrow> int \<Rightarrow> int option \<times> RedisCacheRepository" where
  "cache_increment repo key amount =
     (let repo' = ensure_connected repo in
      if \<not> connected repo' then (None, repo')
      else (case redis_incrby (redis repo') key amount of
              Inr n \<Rightarrow> (Some n, repo')
            | Inl e \<Rightarrow> (None, repo')))"

definition cache_expire ::
  "RedisCacheRepository \<Rightarrow> string \<Rightarrow> int \<Rightarrow> bool \<times> RedisCacheRepository" where
  "cache_expire repo key ttl_seconds =
     (let repo' = ensure_connected repo in
      if \<not> connected repo' then (False, repo')
      else (case redis_expire (redis repo') key ttl_seconds of
              Inr b \<Rightarrow> (b, repo')
            | Inl e \<Rightarrow> (False, repo')))"

text \<open>
  \<open>int(count_str) if count_str else 0\<close>: a missing value and the empty text give 0, a
  counter gives its number, any other text raises.
\<close>

definition parse_count :: "redis_value option \<Rightarrow> exn + int" where
  "parse_count count_str =
     (case count_str of
        None \<Rightarrow> Inr 0
      | Some (Counter n) \<Rightarrow> Inr n
      | Some (Text s) \<Rightarrow> if s = [] then Inr 0 else Inl (ValueError ''invalid literal for int()''))"

text \<open>
  The middleware: the limit, the window and the local cache of \<open>(count, window_start)\<close>
  per client.  Time stamps are Python floats; they are modelled as exact reals.
\<close>

record RateLimitMiddleware =
  requests_per_minute :: int
  window_seconds :: int
  local_cache :: "string \<rightharpoonup> int \<times> real"

definition RateLimitMiddleware_init :: "int \<Rightarrow> int \<Rightarrow> RateLimitMiddleware" where
  "RateLimitMiddleware_init limit window =
     \<lparr>requests_per_minute = limit, window_seconds = window, local_cache = Map.empty\<rparr>"

text \<open>
  \<open>_check_local_rate_limit\<close>.  Nothing in its \<open>try\<close> block raises on these values, so the
  \<open>except\<close> branch is not taken.
\<close>

definition check_local_rate_limit ::
  "RateLimitMiddleware \<Rightarrow> string \<Rightarrow> real \<Rightarrow> bool \<times> RateLimitMiddleware" where
  "check_local_rate_limit self client_id current_time =
     (case local_cache self client_id of
        Some (count, window_start) \<Rightarrow>
          if current_time - window_start \<ge> real_of_int (window_seconds self)
          then (True, self\<lparr>local_cache := (local_cache self)(client_id \<mapsto> (1, current_time))\<rparr>)
          else if count \<ge> requests_per_minute self then (False, self)
          else (True, self\<lparr>local_cache := (local_cache self)(client_id \<mapsto> (count + 1, window_start))\<rparr>)
      | None \<Rightarrow>
          (True, self\<lparr>local_cache := (local_cache self)(client_id \<mapsto> (1, current_time))\<rparr>))"

text \<open>
  \<open>_check_redis_rate_limit\<close>.  The only exception that can arise in its \<open>try\<close> block
  comes from \<open>int\<close>; the \<open>except\<close> branch returns \<open>True\<close>.
\<close>

definition check_redis_rate_limit ::
  "RateLimitMiddleware \<Rightarrow> RedisCacheRepository \<Rightarrow> string \<Rightarrow> real
     \<Rightarrow> bool \<times> RedisCacheRepository" where
  "check_redis_rate_limit self cache_repo client_id current_time =
     (let key = ''rate_limit:'' @ client_id;
          (count_str, repo1) = cache_get cache_repo key
      in case parse_count count_str of
           Inl e \<Rightarrow> (True, repo1)
         | Inr count \<Rightarrow>
             if count \<ge> requests_per_minute self then (False, repo1)
             else
               (let (n, repo2) = cache_increment repo1 key 1 in
                if count = 0
                then (let (b, repo3) = cache_expire repo2 key (window_seconds self) in (True, repo3))
                else (True, repo2)))"

text \<open>
  \<open>_check_rate_limit\<close>: the Redis path when the repository is connected, the local path
  otherwise.  Neither path raises, so its own \<open>except\<close> clause, which returns \<open>True\<close>, is
  not taken.  The result is the decision, the middleware and the repository afterwards.
\<close>

definition check_rate_limit ::
  "RateLimitMiddleware \<Rightarrow> RedisCacheRepository \<Rightarrow> string \<Rightarrow> real
     \<Rightarrow> bool \<times> RateLimitMiddleware \<times> RedisCacheRepository" where
  "check_rate_limit self cache_repo client_id current_time =
     (if connected cache_repo
      then (let (ok, repo') = check_redis_rate_limit self cache_repo client_id current_time
            in (ok, self, repo'))
      else (let (ok, self') = check_local_rate_limit self client_id current_time
            in (ok, self', cache_repo)))"

text \<open>A sequence of local checks, each a client and a time; the decisions in order.\<close>

fun run_local_checks ::
  "RateLimitMiddleware \<Rightarrow> (string \<times> real) list \<Rightarrow> bool list \<times> RateLimitMiddleware" where
  "run_local_checks self [] = ([], self)"
| "run_local_checks self ((client_id, t) # rest) =
     (let (ok, self') = check_local_rate_limit self client_id t;
          (oks, self'') = run_local_checks self' rest
      in (ok # oks, self''))"

text \<open>A sequence of checks of one client through \<open>_check_rate_limit\<close>.\<close>

fun run_checks ::
  "RateLimitMiddleware \<Rightarrow> RedisCacheRepository \<Rightarrow> string \<Rightarrow> real list
     \<Rightarrow> bool list \<times> RateLimitMiddleware \<times> RedisCacheRepository" where
  "run_checks self cache_repo client_id [] = ([], self, cache_repo)"
| "run_checks self cache_repo client_id (t # rest) =
     (let (ok, self', repo') = check_rate_limit self cache_repo client_id t;
          (oks, self'', repo'') = run_checks self' repo' client_id rest
      in (ok # oks, self'', repo''))"

text \<open>The window of a stored entry has expired at a time.\<close>

definition window_expired :: "RateLimitMiddleware \<Rightarrow> real \<Rightarrow> real \<Rightarrow> bool" where
  "window_expired self window_start now = (now - window_start \<ge> real_of_int (window_seconds self))"

section \<open>The provider adapters (gemini\_adapter.py, groq\_adapter.py, openai\_adapter.py)\<close>

subsection \<open>Configuration, tokens and cost\<close>

text \<open>Prices are in USD per million tokens.\<close>

record pricing =
  price_input :: real
  price_output :: real

record Adapter =
  api_key :: string
  adapter_model_name :: string
  adapter_provider :: LLMProvider
  adapter_pricing :: pricing

definition GeminiAdapter_init :: "string \<Rightarrow> string \<Rightarrow> Adapter" where
  "GeminiAdapter_init key name =
     \<lparr>api_key = key, adapter_model_name = name, adapter_provider = GEMINI,
      adapter_pricing = \<lparr>price_input = 75 / 1000, price_output = 30 / 100\<rparr>\<rparr>"

definition GroqAdapter_init :: "string \<Rightarrow> string \<Rightarrow> Adapter" where
  "GroqAdapter_init key name =
     \<lparr>api_key = key, adapter_model_name = name, adapter_provider = GROQ,
      adapter_pricing =
        (if py_in ''llama3-70b'' (lower name)
         then \<lparr>price_input = 59 / 100, price_output = 79 / 100\<rparr>
         else if py_in ''mixtral'' (lower name)
         then \<lparr>price_input = 27 / 100, price_output = 27 / 100\<rparr>
         else \<lparr>price_input = 27 / 100, price_output = 27 / 100\<rparr>)\<rparr>"

definition OpenAIAdapter_init :: "string \<Rightarrow> string \<Rightarrow> Adapter" where
  "OpenAIAdapter_init key name =
     \<lparr>api_key = key, adapter_model_name = name, adapter_provider = OPENAI,
      adapter_pricing =
        (if py_in ''gpt-4'' (lower name)
         then \<lparr>price_input = 30, price_output = 60\<rparr>
         else \<lparr>price_input = 50 / 100, price_output = 150 / 100\<rparr>)\<rparr>"

text \<open>\<open>_estimate_tokens\<close> (Gemini and OpenAI): four characters per token.\<close>

definition estimate_tokens :: "string \<Rightarrow> int" where
  "estimate_tokens text = int (length text) div 4"

text \<open>
  \<open>_calculate_cost\<close>, the same in the Gemini and the OpenAI adapter.  The Groq adapter
  computes its cost inside \<open>generate_response\<close>.
\<close>

definition calculate_cost :: "Adapter \<Rightarrow> int \<Rightarrow> int \<Rightarrow> real" where
  "calculate_cost self input_tokens output_tokens =
     (let input_cost = (real_of_int input_tokens / 1000000) * price_input (adapter_pricing self);
          output_cost = (real_of_int output_tokens / 1000000) * price_output (adapter_pricing self)
      in input_cost + output_cost)"

subsection \<open>What the adapters do to their backends\<close>

text \<open>
  A backend is given by its outcome on a payload at each invocation, counted from 0
  within one call of \<open>generate_response\<close>: a reply or a raised exception.  The adapter's
  effects are logged: each invocation with the payload sent, and each sleep with its
  seconds.
\<close>

datatype 'p effect = Invoke 'p | Sleep nat

fun is_Invoke :: "'p effect \<Rightarrow> bool" where
  "is_Invoke (Invoke p) = True"
| "is_Invoke (Sleep n) = False"

record 'c chat_message =
  msg_role :: string
  msg_content :: 'c

text \<open>The reply of a chat-completions backend (Groq, OpenAI).\<close>

record usage =
  prompt_tokens :: int
  completion_tokens :: int
  total_tokens :: int

record choice =
  message_content :: "string option"
  finish_reason :: string

record chat_completion =
  choices :: "choice list"
  completion_usage :: "usage option"

subsection \<open>Formatting the context (Gemini, OpenAI)\<close>

text \<open>\<open>d.get(key, default)\<close> on a message.\<close>

definition dict_get :: "message \<Rightarrow> string \<Rightarrow> string \<Rightarrow> string" where
  "dict_get m key dflt = (case map_of m key of Some v \<Rightarrow> v | None \<Rightarrow> dflt)"

text \<open>
  \<open>str\<close> of a list element.  For a dictionary it is rendered as Python prints one whose
  texts need no escaping.
\<close>

definition str_message :: "message \<Rightarrow> string" where
  "str_message m =
     ''{'' @ join '', '' (map (\<lambda>(k, v). [CHR 0x27] @ k @ [CHR 0x27] @ '': '' @ [CHR 0x27] @ v @ [CHR 0x27]) m)
     @ ''}''"

fun str_item :: "item \<Rightarrow> string" where
  "str_item (Msg m) = str_message m"
| "str_item (Other s) = s"

text \<open>\<open>value[-5:]\<close>.\<close>

definition last5 :: "'a list \<Rightarrow> 'a list" where
  "last5 xs = drop (length xs - 5) xs"

text \<open>One line of the history; \<open>msg.get\<close> exists on dictionaries only.\<close>

fun format_history_line :: "item \<Rightarrow> exn + string" where
  "format_history_line (Msg m) =
     Inr (dict_get m ''role'' ''user'' @ '': '' @ dict_get m ''content'' [])"
| "format_history_line (Other s) = Inl (AttributeError ''object has no attribute get'')"

fun format_context_entry :: "string \<Rightarrow> string \<times> ctx_value \<Rightarrow> exn + string" where
  "format_context_entry header (key, ListV value) =
     (if key = ''history''
      then (case collect format_history_line (last5 value) of
              Inl e \<Rightarrow> Inl e
            | Inr history_lines \<Rightarrow> Inr (header @ newline @ join newline history_lines))
      else Inr (key @ '': '' @ join '', '' (map str_item value)))"
| "format_context_entry header (key, Scalar s) = Inr (key @ '': '' @ s)"

text \<open>
  \<open>_format_context\<close>.  The two adapters differ in the header line of the history only,
  which is the parameter \<open>header\<close>.
\<close>

definition format_context :: "string \<Rightarrow> (string \<times> ctx_value) list \<Rightarrow> exn + string" where
  "format_context header context =
     (if context = [] then Inr []
      else (case collect (format_context_entry header) context of
              Inl e \<Rightarrow> Inl e
            | Inr context_parts \<Rightarrow> Inr (join newline context_parts)))"

definition Gemini_history_header :: string where
  "Gemini_history_header = ''Historial de conversaci'' @ [CHR 0xC3, CHR 0xB3] @ ''n:''"

definition OpenAI_history_header :: string where
  "OpenAI_history_header = ''Historial de conversaci'' @ [CHR 0xF3] @ ''n:''"

subsection \<open>The Gemini adapter\<close>

definition Gemini_build_prompt_with_context :: "LLMRequest \<Rightarrow> exn + string" where
  "Gemini_build_prompt_with_context request =
     (if req_context request \<noteq> []
      then (case format_context Gemini_history_header (req_context request) of
              Inl e \<Rightarrow> Inl e
            | Inr context_str \<Rightarrow>
                if context_str \<noteq> []
                then Inr (join newline
                            [''Contexto:'' @ newline @ context_str @ newline @ newline, prompt request])
                else Inr (join newline [prompt request]))
      else Inr (join newline [prompt request]))"

text \<open>
  One attempt of \<open>_generate_with_retry\<close>: the backend's text, or its exception, or the
  \<open>LLMError\<close> raised on an empty text.
\<close>

definition Gemini_attempt :: "(string \<Rightarrow> nat \<Rightarrow> exn + string) \<Rightarrow> string \<Rightarrow> nat \<Rightarrow> exn + string" where
  "Gemini_attempt backend full_prompt attempt =
     (case backend full_prompt attempt of
        Inl e \<Rightarrow> Inl e
      | Inr text \<Rightarrow> if text \<noteq> [] then Inr text else Inl (LLMError ''Empty response from Gemini''))"

text \<open>
  The loop \<open>for attempt in range(max_retries)\<close> of \<open>_generate_with_retry\<close> over the attempts
  left, with the variable \<open>last_exception\<close>.  After the loop \<open>raise last_exception\<close> raises
  \<open>TypeError\<close> when no exception was recorded.
\<close>

fun retry_attempts ::
  "(string \<Rightarrow> nat \<Rightarrow> exn + string) \<Rightarrow> string \<Rightarrow> nat \<Rightarrow> nat list \<Rightarrow> exn option
     \<Rightarrow> string effect list \<Rightarrow> (exn + string) \<times> string effect list" where
  "retry_attempts backend full_prompt max_retries [] last_exception effects =
     (case last_exception of
        Some e \<Rightarrow> (Inl e, effects)
      | None \<Rightarrow> (Inl (TypeError ''exceptions must derive from BaseException''), effects))"
| "retry_attempts backend full_prompt max_retries (attempt # rest) last_exception effects =
     (case Gemini_attempt backend full_prompt attempt of
        Inr text \<Rightarrow> (Inr text, effects @ [Invoke full_prompt])
      | Inl e \<Rightarrow>
          if int attempt < int max_retries - 1
          then retry_attempts backend full_prompt max_retries rest (Some e)
                 (effects @ [Invoke full_prompt, Sleep (2 ^ attempt)])
          else (Inl e, effects @ [Invoke full_prompt]))"

definition Gemini_generate_with_retry ::
  "(string \<Rightarrow> nat \<Rightarrow> exn + string) \<Rightarrow> string \<Rightarrow> nat \<Rightarrow> (exn + string) \<times> string effect list" where
  "Gemini_generate_with_retry backend full_prompt max_retries =
     retry_attempts backend full_prompt max_retries [0..<max_retries] None []"

text \<open>The \<open>except Exception\<close> clause of \<open>generate_response\<close>.\<close>

definition Gemini_except :: "exn \<Rightarrow> exn" where
  "Gemini_except e =
     (if py_in ''quota'' (lower (str_exn e)) \<or> py_in ''billing'' (lower (str_exn e))
      then LLMQuotaExceededError (''Gemini quota exceeded: '' @ str_exn e)
      else if py_in ''rate'' (lower (str_exn e)) \<or> py_in ''limit'' (lower (str_exn e))
      then LLMRateLimitError (''Gemini rate limit exceeded: '' @ str_exn e)
      else if py_in ''timeout'' (lower (str_exn e))
      then LLMTimeoutError (''Gemini request timeout: '' @ str_exn e)
      else LLMError (''Gemini generation failed: '' @ str_exn e))"

text \<open>
  The \<open>try\<close> block of \<open>generate_response\<close>.  The measured time \<open>response_time_ms\<close> is an
  input.  The metadata of the response is left out.
\<close>

definition Gemini_generate_body ::
  "Adapter \<Rightarrow> LLMRequest \<Rightarrow> (string \<Rightarrow> nat \<Rightarrow> exn + string) \<Rightarrow> real
     \<Rightarrow> (exn + LLMResponse) \<times> string effect list" where
  "Gemini_generate_body self request backend time_ms =
     (case Gemini_build_prompt_with_context request of
        Inl e \<Rightarrow> (Inl e, [])
      | Inr full_prompt \<Rightarrow>
          (case Gemini_generate_with_retry backend full_prompt 3 of
             (Inl e, effects) \<Rightarrow> (Inl e, effects)
           | (Inr text, effects) \<Rightarrow>
               (let input_tokens = estimate_tokens full_prompt;
                    output_tokens = estimate_tokens text;
                    total = input_tokens + output_tokens;
                    cost = calculate_cost self input_tokens output_tokens
                in case make_ResponseMetrics
                          \<lparr>response_time_ms = time_ms, tokens_used = total,
                           tokens_input = input_tokens, tokens_output = output_tokens,
                           metrics_provider = adapter_provider self,
                           metrics_model_name = adapter_model_name self, cost_usd = cost\<rparr> of
                     Inl e \<Rightarrow> (Inl e, effects)
                   | Inr ms \<Rightarrow>
                       (make_LLMResponse (Some text) (adapter_provider self)
                          (adapter_model_name self) ms, effects))))"

definition Gemini_generate_response ::
  "Adapter \<Rightarrow> LLMRequest \<Rightarrow> (string \<Rightarrow> nat \<Rightarrow> exn + string) \<Rightarrow> real
     \<Rightarrow> (exn + LLMResponse) \<times> string effect list" where
  "Gemini_generate_response self request backend time_ms =
     (case Gemini_generate_body self request backend time_ms of
        (Inl e, effects) \<Rightarrow> (Inl (Gemini_except e), effects)
      | (Inr response, effects) \<Rightarrow> (Inr response, effects))"

text \<open>
  \<open>health_check\<close>: \<open>timed_out\<close> says that the timeout of \<open>asyncio.wait_for\<close> fires before
  \<open>generate_response\<close> ends.  Both \<open>except\<close> clauses return \<open>False\<close>.
\<close>

definition Gemini_test_request :: LLMRequest where
  "Gemini_test_request =
     \<lparr>prompt = ''Hello'', req_context = [], max_tokens = Some 5, temperature = 1 / 10,
      request_model_name = None\<rparr>"

definition Gemini_health_check ::
  "Adapter \<Rightarrow> (string \<Rightarrow> nat \<Rightarrow> exn + string) \<Rightarrow> real \<Rightarrow> bool \<Rightarrow> exn + bool" where
  "Gemini_health_check self backend time_ms timed_out =
     (case make_LLMRequest Gemini_test_request of
        Inl e \<Rightarrow> Inr False
      | Inr test_request \<Rightarrow>
          if timed_out then Inr False
          else (case fst (Gemini_generate_response self test_request backend time_ms) of
                  Inl e \<Rightarrow> Inr False
                | Inr response \<Rightarrow> Inr True))"

subsection \<open>The Groq adapter\<close>

text \<open>One history entry of \<open>_build_messages\<close>: \<open>msg["role"]\<close> and \<open>msg["content"]\<close>.\<close>

fun Groq_history_message :: "item \<Rightarrow> exn + ctx_value chat_message" where
  "Groq_history_message (Msg m) =
     (case map_of m ''role'' of
        None \<Rightarrow> Inl (KeyError ([CHR 0x27] @ ''role'' @ [CHR 0x27]))
      | Some r \<Rightarrow>
          (case map_of m ''content'' of
             None \<Rightarrow> Inl (KeyError ([CHR 0x27] @ ''content'' @ [CHR 0x27]))
           | Some c \<Rightarrow> Inr \<lparr>msg_role = r, msg_content = Scalar c\<rparr>))"
| "Groq_history_message (Other s) = Inl (TypeError ''indices must be integers'')"

text \<open>
  The loop \<open>for msg in request.context["history"]\<close>: over the elements of a list, or over
  the characters of a text, each of which fails on \<open>msg["role"]\<close>.
\<close>

fun Groq_history_messages :: "ctx_value \<Rightarrow> exn + ctx_value chat_message list" where
  "Groq_history_messages (ListV value) = collect Groq_history_message value"
| "Groq_history_messages (Scalar s) =
     (if s = [] then Inr [] else Inl (TypeError ''string indices must be integers''))"

definition Groq_build_messages :: "LLMRequest \<Rightarrow> exn + ctx_value chat_message list" where
  "Groq_build_messages request =
     (let system_messages =
            (case map_of (req_context request) ''system_instruction'' of
               Some v \<Rightarrow> [\<lparr>msg_role = ''system'', msg_content = v\<rparr>]
             | None \<Rightarrow> [])
      in case (case map_of (req_context request) ''history'' of
                 Some v \<Rightarrow> Groq_history_messages v
               | None \<Rightarrow> Inr []) of
           Inl e \<Rightarrow> Inl e
         | Inr history_messages \<Rightarrow>
             Inr (system_messages @ history_messages
                  @ [\<lparr>msg_role = ''user'', msg_content = Scalar (prompt request)\<rparr>]))"

text \<open>
  The two \<open>except\<close> clauses of \<open>generate_response\<close>; \<open>elapsed\<close> is the text of the elapsed
  seconds in the timeout message.
\<close>

definition Groq_except :: "string \<Rightarrow> exn \<Rightarrow> exn" where
  "Groq_except elapsed e =
     (if e = AsyncioTimeoutError
      then LLMTimeoutError (''Groq request timeout after '' @ elapsed @ ''s'')
      else if py_in ''rate limit'' (lower (str_exn e))
      then LLMRateLimitError (''Groq rate limit exceeded: '' @ str_exn e)
      else if py_in ''quota'' (lower (str_exn e)) \<or> py_in ''billing'' (lower (str_exn e))
      then LLMQuotaExceededError (''Groq quota exceeded: '' @ str_exn e)
      else if py_in ''timeout'' (lower (str_exn e))
      then LLMTimeoutError (''Groq request timeout: '' @ str_exn e)
      else LLMError (''Groq API error: '' @ str_exn e))"

text \<open>
  The \<open>try\<close> block of \<open>generate_response\<close>: one call of the backend, then the reading of
  the reply.  The parameters sent besides the messages, and the metadata, are left out.
\<close>

definition Groq_read_reply :: "Adapter \<Rightarrow> chat_completion \<Rightarrow> real \<Rightarrow> exn + LLMResponse" where
  "Groq_read_reply self response time_ms =
     (case choices response of
        [] \<Rightarrow> Inl (IndexError ''list index out of range'')
      | first_choice # others \<Rightarrow>
          (case completion_usage response of
             None \<Rightarrow> Inl (AttributeError ''NoneType object has no attribute prompt_tokens'')
           | Some u \<Rightarrow>
               (let input_cost =
                      (real_of_int (prompt_tokens u) / 1000000) * price_input (adapter_pricing self);
                    output_cost =
                      (real_of_int (completion_tokens u) / 1000000) * price_output (adapter_pricing self);
                    total_cost = input_cost + output_cost
                in case make_ResponseMetrics
                          \<lparr>response_time_ms = time_ms, tokens_used = total_tokens u,
                           tokens_input = prompt_tokens u, tokens_output = completion_tokens u,
                           metrics_provider = adapter_provider self,
                           metrics_model_name = adapter_model_name self, cost_usd = total_cost\<rparr> of
                     Inl e \<Rightarrow> Inl e
                   | Inr ms \<Rightarrow>
                       make_LLMResponse (message_content first_choice) (adapter_provider self)
                         (adapter_model_name self) ms)))"

definition Groq_generate_body ::
  "Adapter \<Rightarrow> LLMRequest \<Rightarrow> (ctx_value chat_message list \<Rightarrow> nat \<Rightarrow> exn + chat_completion) \<Rightarrow> real
     \<Rightarrow> (exn + LLMResponse) \<times> ctx_value chat_message list effect list" where
  "Groq_generate_body self request backend time_ms =
     (case Groq_build_messages request of
        Inl e \<Rightarrow> (Inl e, [])
      | Inr messages \<Rightarrow>
          (case backend messages 0 of
             Inl e \<Rightarrow> (Inl e, [Invoke messages])
           | Inr response \<Rightarrow> (Groq_read_reply self response time_ms, [Invoke messages])))"

definition Groq_generate_response ::
  "Adapter \<Rightarrow> LLMRequest \<Rightarrow> (ctx_value chat_message list \<Rightarrow> nat \<Rightarrow> exn + chat_completion) \<Rightarrow> real
     \<Rightarrow> string \<Rightarrow> (exn + LLMResponse) \<times> ctx_value chat_message list effect list" where
  "Groq_generate_response self request backend time_ms elapsed =
     (case Groq_generate_body self request backend time_ms of
        (Inl e, effects) \<Rightarrow> (Inl (Groq_except elapsed e), effects)
      | (Inr response, effects) \<Rightarrow> (Inr response, effects))"

definition Groq_test_request :: LLMRequest where
  "Groq_test_request =
     \<lparr>prompt = ''Hello'', req_context = [], max_tokens = Some 10, temperature = 1 / 10,
      request_model_name = None\<rparr>"

text \<open>
  \<open>health_check\<close>: \<open>response is not None and len(response.content) > 0\<close>, and \<open>False\<close> from
  the \<open>except\<close> clause.
\<close>

definition Groq_health_check ::
  "Adapter \<Rightarrow> (ctx_value chat_message list \<Rightarrow> nat \<Rightarrow> exn + chat_completion) \<Rightarrow> real \<Rightarrow> string
     \<Rightarrow> exn + bool" where
  "Groq_health_check self backend time_ms elapsed =
     (case make_LLMRequest Groq_test_request of
        Inl e \<Rightarrow> Inr False
      | Inr test_request \<Rightarrow>
          (case fst (Groq_generate_response self test_request backend time_ms elapsed) of
             Inl e \<Rightarrow> Inr False
           | Inr response \<Rightarrow> Inr (length (content response) > 0)))"

subsection \<open>The OpenAI adapter\<close>

definition OpenAI_build_messages :: "LLMRequest \<Rightarrow> exn + string chat_message list" where
  "OpenAI_build_messages request =
     (case (if req_context request \<noteq> []
            then (case format_context OpenAI_history_header (req_context request) of
                    Inl e \<Rightarrow> Inl e
                  | Inr system_content \<Rightarrow>
                      if system_content \<noteq> []
                      then Inr [\<lparr>msg_role = ''system'', msg_content = system_content\<rparr>]
                      else Inr [])
            else Inr []) of
        Inl e \<Rightarrow> Inl e
      | Inr messages \<Rightarrow> Inr (messages @ [\<lparr>msg_role = ''user'', msg_content = prompt request\<rparr>]))"

text \<open>The \<open>except\<close> clauses of \<open>generate_response\<close>, in their order.\<close>

fun OpenAI_except :: "exn \<Rightarrow> exn" where
  "OpenAI_except (OpenAI_RateLimitError m) = LLMRateLimitError (''OpenAI rate limit exceeded: '' @ m)"
| "OpenAI_except (OpenAI_APITimeoutError m) = LLMTimeoutError (''OpenAI request timeout: '' @ m)"
| "OpenAI_except (OpenAI_APIConnectionError m) = LLMError (''OpenAI connection error: '' @ m)"
| "OpenAI_except (OpenAI_AuthenticationError m) = LLMError (''OpenAI authentication error: '' @ m)"
| "OpenAI_except (OpenAI_PermissionDeniedError m) = LLMError (''OpenAI permission denied: '' @ m)"
| "OpenAI_except (OpenAI_NotFoundError m) = LLMError (''OpenAI model not found: '' @ m)"
| "OpenAI_except (OpenAI_BadRequestError m) =
     (if py_in ''quota'' (lower m) \<or> py_in ''billing'' (lower m)
      then LLMQuotaExceededError (''OpenAI quota exceeded: '' @ m)
      else LLMError (''OpenAI bad request: '' @ m))"
| "OpenAI_except e = LLMError (''OpenAI generation failed: '' @ str_exn e)"

text \<open>
  The \<open>try\<close> block of \<open>generate_response\<close>: one call of the backend, then the reading of
  the reply; a reply without usage counts as zero tokens.
\<close>

definition OpenAI_read_reply :: "Adapter \<Rightarrow> chat_completion \<Rightarrow> real \<Rightarrow> exn + LLMResponse" where
  "OpenAI_read_reply self response time_ms =
     (let input_tokens = (case completion_usage response of Some u \<Rightarrow> prompt_tokens u | None \<Rightarrow> 0);
          output_tokens = (case completion_usage response of Some u \<Rightarrow> completion_tokens u | None \<Rightarrow> 0);
          total = (case completion_usage response of Some u \<Rightarrow> total_tokens u | None \<Rightarrow> 0);
          cost = calculate_cost self input_tokens output_tokens
      in case make_ResponseMetrics
                \<lparr>response_time_ms = time_ms, tokens_used = total,
                 tokens_input = input_tokens, tokens_output = output_tokens,
                 metrics_provider = adapter_provider self,
                 metrics_model_name = adapter_model_name self, cost_usd = cost\<rparr> of
           Inl e \<Rightarrow> Inl e
         | Inr ms \<Rightarrow>
             (case choices response of
                [] \<Rightarrow> Inl (IndexError ''list index out of range'')
              | first_choice # others \<Rightarrow>
                  make_LLMResponse (message_content first_choice) (adapter_provider self)
                    (adapter_model_name self) ms))"

definition OpenAI_generate_body ::
  "Adapter \<Rightarrow> LLMRequest \<Rightarrow> (string chat_message list \<Rightarrow> nat \<Rightarrow> exn + chat_completion) \<Rightarrow> real
     \<Rightarrow> (exn + LLMResponse) \<times> string chat_message list effect list" where
  "OpenAI_generate_body self request backend time_ms =
     (case OpenAI_build_messages request of
        Inl e \<Rightarrow> (Inl e, [])
      | Inr messages \<Rightarrow>
          (case backend messages 0 of
             Inl e \<Rightarrow> (Inl e, [Invoke messages])
           | Inr response \<Rightarrow> (OpenAI_read_reply self response time_ms, [Invoke messages])))"

definition OpenAI_generate_response ::
  "Adapter \<Rightarrow> LLMRequest \<Rightarrow> (string chat_message list \<Rightarrow> nat \<Rightarrow> exn + chat_completion) \<Rightarrow> real
     \<Rightarrow> (exn + LLMResponse) \<times> string chat_message list effect list" where
  "OpenAI_generate_response self request backend time_ms =
     (case OpenAI_generate_body self request backend time_ms of
        (Inl e, effects) \<Rightarrow> (Inl (OpenAI_except e), effects)
      | (Inr response, effects) \<Rightarrow> (Inr response, effects))"

definition OpenAI_test_request :: LLMRequest where
  "OpenAI_test_request =
     \<lparr>prompt = ''Hello'', req_context = [], max_tokens = Some 10, temperature = 7 / 10,
      request_model_name = None\<rparr>"

definition OpenAI_health_check ::
  "Adapter \<Rightarrow> (string chat_message list \<Rightarrow> nat \<Rightarrow> exn + chat_completion) \<Rightarrow> real \<Rightarrow> bool
     \<Rightarrow> exn + bool" where
  "OpenAI_health_check self backend time_ms timed_out =
     (case make_LLMRequest OpenAI_test_request of
        Inl e \<Rightarrow> Inr False
      | Inr test_request \<Rightarrow>
          if timed_out then Inr False
          else (case fst (OpenAI_generate_response self test_request backend time_ms) of
                  Inl e \<Rightarrow> Inr False
                | Inr response \<Rightarrow> Inr True))"

subsection \<open>The adapters as providers of the repository\<close>

text \<open>
  An adapter with its backend, as the repository meets it during one call: \<open>health_check\<close>
  and \<open>generate_response\<close> with their outcomes.
\<close>

definition Gemini_port ::
  "Adapter \<Rightarrow> (string \<Rightarrow> nat \<Rightarrow> exn + string) \<Rightarrow> real \<Rightarrow> bool \<Rightarrow> LLMPort" where
  "Gemini_port self backend time_ms timed_out =
     \<lparr>health_check = Gemini_health_check self backend time_ms timed_out,
      generate_response = (\<lambda>request. fst (Gemini_generate_response self request backend time_ms))\<rparr>"

definition Groq_port ::
  "Adapter \<Rightarrow> (ctx_value chat_message list \<Rightarrow> nat \<Rightarrow> exn + chat_completion) \<Rightarrow> real \<Rightarrow> string
     \<Rightarrow> LLMPort" where
  "Groq_port self backend time_ms elapsed =
     \<lparr>health_check = Groq_health_check self backend time_ms elapsed,
      generate_response =
        (\<lambda>request. fst (Groq_generate_response self request backend time_ms elapsed))\<rparr>"

definition OpenAI_port ::
  "Adapter \<Rightarrow> (string chat_message list \<Rightarrow> nat \<Rightarrow> exn + chat_completion) \<Rightarrow> real \<Rightarrow> bool
     \<Rightarrow> LLMPort" where
  "OpenAI_port self backend time_ms timed_out =
     \<lparr>health_check = OpenAI_health_check self backend time_ms timed_out,
      generate_response = (\<lambda>request. fst (OpenAI_generate_response self request backend time_ms))\<rparr>"

subsection \<open>Vocabulary of the statements about the adapters\<close>

text \<open>
  The classification of an error message in the words of the specification: quota or
  billing, else rate or limit, else timeout, else generic.
\<close>

definition spec_error_kind :: "string \<Rightarrow> ErrorKind" where
  "spec_error_kind msg =
     (if py_in ''quota'' (lower msg) \<or> py_in ''billing'' (lower msg) then QuotaExceeded
      else if py_in ''rate'' (lower msg) \<or> py_in ''limit'' (lower msg) then RateLimited
      else if py_in ''timeout'' (lower msg) then Timeout
      else Generic)"

text \<open>
  The effects of a call that fails \<open>k\<close> times, sleeping \<open>2 ^ i\<close> seconds after the failure
  of attempt \<open>i\<close>, and then makes one more invocation.
\<close>

definition backoff_trace :: "'p \<Rightarrow> nat \<Rightarrow> 'p effect list" where
  "backoff_trace p k = concat (map (\<lambda>i. [Invoke p, Sleep (2 ^ i)]) [0..<k]) @ [Invoke p]"



section \<open>Example inputs\<close>

definition example_request :: LLMRequest where
  "example_request =
     \<lparr>prompt = ''Hello'', req_context = [], max_tokens = None, temperature = 7 / 10,
      request_model_name = None\<rparr>"

definition example_response :: "LLMProvider \<Rightarrow> LLMResponse" where
  "example_response p =
     \<lparr>content = ''Hi'', provider = p, model_name = ''m'',
      metrics = \<lparr>response_time_ms = 1, tokens_used = 2, tokens_input = 1, tokens_output = 1,
                 metrics_provider = p, metrics_model_name = ''m'', cost_usd = 0\<rparr>\<rparr>"

definition port_unhealthy :: LLMPort where
  "port_unhealthy = \<lparr>health_check = Inr False, generate_response = (\<lambda>r. Inr (example_response GEMINI))\<rparr>"

definition port_failing :: "exn \<Rightarrow> LLMPort" where
  "port_failing e = \<lparr>health_check = Inr True, generate_response = (\<lambda>r. Inl e)\<rparr>"

definition port_ok :: "LLMProvider \<Rightarrow> LLMPort" where
  "port_ok p = \<lparr>health_check = Inr True, generate_response = (\<lambda>r. Inr (example_response p))\<rparr>"

definition example_providers :: "LLMProvider \<rightharpoonup> LLMPort" where
  "example_providers =
     [GEMINI \<mapsto> port_failing (LLMRateLimitError ''Gemini rate limit exceeded: 429''),
      GROQ \<mapsto> port_unhealthy,
      OPENAI \<mapsto> port_ok OPENAI]"

definition failing_providers :: "LLMProvider \<rightharpoonup> LLMPort" where
  "failing_providers =
     [GEMINI \<mapsto> port_failing (LLMRateLimitError ''Gemini rate limit exceeded: 429''),
      GROQ \<mapsto> port_unhealthy,
      OPENAI \<mapsto> port_failing (LLMTimeoutError ''OpenAI request timeout: t'')]"

text \<open>A Redis client every command of which raises, behind a connected repository.\<close>

definition raising_client :: redis_client where
  "raising_client =
     \<lparr>redis_ping = Inl (OtherException ''Connection refused''),
      redis_get = (\<lambda>key. Inl (OtherException ''Connection refused'')),
      redis_incrby = (\<lambda>key amount. Inl (OtherException ''Connection refused'')),
      redis_expire = (\<lambda>key ttl. Inl (OtherException ''Connection refused''))\<rparr>"

definition raising_repository :: RedisCacheRepository where
  "raising_repository = \<lparr>connected = True, redis = raising_client\<rparr>"

definition unreachable_repository :: RedisCacheRepository where
  "unreachable_repository = \<lparr>connected = False, redis = raising_client\<rparr>"




text \<open>
  Backends whose first invocation raises an exception and whose second would succeed,
  backends that raise a fixed exception at every invocation, and backends that succeed.
\<close>

definition example_completion :: chat_completion where
  "example_completion =
     \<lparr>choices = [\<lparr>message_content = Some ''Hi'', finish_reason = ''stop''\<rparr>],
      completion_usage = Some \<lparr>prompt_tokens = 1000, completion_tokens = 500, total_tokens = 1500\<rparr>\<rparr>"

definition flaky_text_backend :: "exn \<Rightarrow> string \<Rightarrow> nat \<Rightarrow> exn + string" where
  "flaky_text_backend e payload attempt = (if attempt = 0 then Inl e else Inr ''Hi'')"

definition flaky_chat_backend :: "exn \<Rightarrow> 'm \<Rightarrow> nat \<Rightarrow> exn + chat_completion" where
  "flaky_chat_backend e payload attempt = (if attempt = 0 then Inl e else Inr example_completion)"

definition raising_text_backend :: "exn \<Rightarrow> string \<Rightarrow> nat \<Rightarrow> exn + string" where
  "raising_text_backend e payload attempt = Inl e"

definition raising_chat_backend :: "exn \<Rightarrow> 'm \<Rightarrow> nat \<Rightarrow> exn + chat_completion" where
  "raising_chat_backend e payload attempt = Inl e"

definition ok_chat_backend :: "'m \<Rightarrow> nat \<Rightarrow> exn + chat_completion" where
  "ok_chat_backend payload attempt = Inr example_completion"

definition ok_text_backend :: "string \<Rightarrow> nat \<Rightarrow> exn + string" where
  "ok_text_backend payload attempt = Inr ''Hi''"

section \<open>The fallback orchestrator: claims C1, C2 and C3\<close>

lemma configured_iff: "configured ps p \<longleftrightarrow> ps p \<noteq> None"
  by (simp add: configured_def split: option.splits)

lemma fallback_order_init:
  "fallback_order (LLMRepository_init ps) = filter (configured ps) priority_order"
  by (simp add: LLMRepository_init_def priority_order_def)

lemma providers_init: "providers (LLMRepository_init ps) = ps"
  by (simp add: LLMRepository_init_def)

lemma distinct_priority_order: "distinct priority_order"
  by (simp add: priority_order_def)

lemma order_configured:
  "q \<in> set (get_provider_order (LLMRepository_init ps) preferred) \<Longrightarrow> configured ps q"
  by (auto simp: get_provider_order_def providers_init fallback_order_init split: option.splits if_splits)

lemma order_distinct: "distinct (get_provider_order (LLMRepository_init ps) preferred)"
  by (auto simp: get_provider_order_def providers_init fallback_order_init distinct_priority_order
      split: option.splits)

text \<open>
  Claim C3.  For every set of configured providers and every preferred provider: when the
  preferred provider is configured, the attempt order is the preferred provider followed
  by the other configured providers in the priority order Gemini, Groq, OpenAI, Claude,
  the preferred one not repeated; otherwise it is the priority order restricted to the
  configured providers.  No provider occurs twice.
\<close>

theorem attempt_order_preferred_first:
  "get_provider_order (LLMRepository_init ps) preferred =
     (case preferred of
        None \<Rightarrow> filter (configured ps) priority_order
      | Some pp \<Rightarrow>
          if configured ps pp
          then pp # filter (\<lambda>p. p \<noteq> pp \<and> configured ps p) priority_order
          else filter (configured ps) priority_order)
   \<and> distinct (get_provider_order (LLMRepository_init ps) preferred)"
proof -
  have "filter (\<lambda>p. p \<noteq> pp \<and> configured ps p) (filter (configured ps) priority_order) =
        filter (\<lambda>p. p \<noteq> pp \<and> configured ps p) priority_order" for pp
    by (simp add: conj_commute cong: conj_cong) 
  then show ?thesis
    using order_distinct [of ps preferred]
    by (simp add: get_provider_order_def providers_init fallback_order_init split: option.splits)
qed

text \<open>
  With Gemini, Groq and OpenAI configured (priority order A, B, C) and the preferred
  provider OpenAI (C), the attempt order is C, A, B; an unconfigured preference and no
  preference give A, B, C.
\<close>

theorem attempt_order_preferred_first_witness:
  "get_provider_order (LLMRepository_init example_providers) (Some OPENAI) = [OPENAI, GEMINI, GROQ]
   \<and> get_provider_order (LLMRepository_init example_providers) (Some CLAUDE) = [GEMINI, GROQ, OPENAI]
   \<and> get_provider_order (LLMRepository_init example_providers) None = [GEMINI, GROQ, OPENAI]"
  using attempt_order_preferred_first [of example_providers "Some OPENAI"]
        attempt_order_preferred_first [of example_providers "Some CLAUDE"]
        attempt_order_preferred_first [of example_providers None]
  by (simp add: example_providers_def LLMRepository_init_def get_provider_order_def configured_def priority_order_def)

lemma attempt_calls_fails:
  "provider_fails ps request q \<Longrightarrow>
   fallback_loop ps request (q # rest) last_error calls =
     fallback_loop ps request rest
       (case generate_failures ps request [q] of [] \<Rightarrow> last_error | e # es \<Rightarrow> Some e)
       (calls @ attempt_calls ps q)"
  by (auto simp: provider_fails_def attempt_calls_def generate_failures_def
      split: option.splits sum.splits if_splits bool.splits)

lemma fallback_loop_first_success:
  assumes "\<forall>q \<in> set pre. provider_fails ps request q"
      and "provider_succeeds ps request pt r"
  shows "fallback_loop ps request (pre @ pt # post) last_error calls =
           (Inr r, calls @ concat (map (attempt_calls ps) pre) @ [HealthCheck pt, Generate pt])"
  using assms
proof (induction pre arbitrary: last_error calls)
  case Nil
  then show ?case
    by (auto simp: provider_succeeds_def split: option.splits)
next
  case (Cons q pre)
  have "fallback_loop ps request (q # (pre @ pt # post)) last_error calls =
        fallback_loop ps request (pre @ pt # post)
          (case generate_failures ps request [q] of [] \<Rightarrow> last_error | e # es \<Rightarrow> Some e)
          (calls @ attempt_calls ps q)"
    using Cons.prems(1) by (intro attempt_calls_fails) simp
  then show ?case
    using Cons.IH Cons.prems by (simp del: fallback_loop.simps)
qed

lemma call_of_attempt:
  "c = HealthCheck q \<or> c = Generate q" if "c \<in> set (attempt_calls ps q)"
proof (cases "ps q")
  case None
  then show ?thesis using that by (simp add: attempt_calls_def)
next
  case (Some a)
  show ?thesis
  proof (cases "health_check a")
    case (Inl e)
    then show ?thesis using that Some by (simp add: attempt_calls_def)
  next
    case (Inr b)
    then show ?thesis using that Some by (cases b) (auto simp: attempt_calls_def)
  qed
qed

text \<open>
  Claim C1.  When the attempt order is \<open>pre @ pt # post\<close>, every provider of \<open>pre\<close> fails
  (its health check returns \<open>False\<close>, or it is healthy and its generate raises an error of
  one of the four kinds) and \<open>pt\<close> is healthy and generates the response \<open>r\<close>, then
  \<open>generate_with_fallback\<close> returns \<open>r\<close>, the calls made are exactly the attempts on \<open>pre\<close>
  followed by the health check and the generate of \<open>pt\<close>, and no provider of \<open>post\<close> is
  health-checked or invoked.
\<close>

theorem fallback_returns_first_success:
  assumes "get_provider_order (LLMRepository_init ps) preferred = pre @ pt # post"
      and "\<forall>q \<in> set pre. provider_fails ps request q"
      and "provider_succeeds ps request pt r"
  shows "fst (generate_with_fallback (LLMRepository_init ps) request preferred) = Inr r
       \<and> snd (generate_with_fallback (LLMRepository_init ps) request preferred) =
           concat (map (attempt_calls ps) pre) @ [HealthCheck pt, Generate pt]
       \<and> (\<forall>q \<in> set post.
             HealthCheck q \<notin> set (snd (generate_with_fallback (LLMRepository_init ps) request preferred))
           \<and> Generate q \<notin> set (snd (generate_with_fallback (LLMRepository_init ps) request preferred)))"
proof -
  let ?res = "generate_with_fallback (LLMRepository_init ps) request preferred"
  have res: "?res = (Inr r, concat (map (attempt_calls ps) pre) @ [HealthCheck pt, Generate pt])"
    using fallback_loop_first_success [OF assms(2,3), of post None "[]"] assms(1)
    by (simp add: generate_with_fallback_def providers_init)
  have dist: "distinct (pre @ pt # post)"
    using order_distinct [of ps preferred] assms(1) by simp
  have "HealthCheck q \<notin> set (snd ?res) \<and> Generate q \<notin> set (snd ?res)" if "q \<in> set post" for q
  proof -
    have "q \<noteq> pt" "q \<notin> set pre" using dist that by auto
    then show ?thesis
      using call_of_attempt [of _ ps] by (auto simp: res)
  qed
  then show ?thesis by (simp add: res)
qed

text \<open>
  Groq is preferred and unhealthy, Gemini raises a rate-limit error, OpenAI succeeds: the
  response is OpenAI's and the calls stop there.
\<close>

theorem fallback_returns_first_success_witness:
  "generate_with_fallback (LLMRepository_init example_providers) example_request (Some GROQ) =
     (Inr (example_response OPENAI),
      [HealthCheck GROQ, HealthCheck GEMINI, Generate GEMINI, HealthCheck OPENAI, Generate OPENAI])"
proof -
  have order: "get_provider_order (LLMRepository_init example_providers) (Some GROQ) =
               [GROQ, GEMINI] @ OPENAI # []"
    by (simp add: example_providers_def LLMRepository_init_def get_provider_order_def configured_def priority_order_def)
  have fails: "\<forall>q \<in> set [GROQ, GEMINI]. provider_fails example_providers example_request q"
    by (simp add: example_providers_def port_failing_def port_unhealthy_def provider_fails_def)
  have succeeds: "provider_succeeds example_providers example_request OPENAI (example_response OPENAI)"
    by (simp add: example_providers_def port_ok_def provider_succeeds_def)
  show ?thesis
    using fallback_returns_first_success [OF order fails succeeds]
    by (simp add: prod_eq_iff attempt_calls_def example_providers_def port_failing_def
        port_unhealthy_def)
qed

lemma fallback_loop_exhausted:
  assumes "\<forall>q \<in> set order. \<forall>a. ps q = Some a \<longrightarrow> port_contract a request"
      and "fallback_loop ps request order last_error calls = (Inl err, tr)"
  shows "(\<forall>q \<in> set order. configured ps q \<longrightarrow> provider_fails ps request q)
       \<and> tr = calls @ concat (map (attempt_calls ps) order)
       \<and> err = (case generate_failures ps request order of
                  [] \<Rightarrow> (case last_error of None \<Rightarrow> LLMError ''All LLM providers are unavailable''
                                          | Some e \<Rightarrow> e)
                | e # es \<Rightarrow> last (e # es))"
  using assms
proof (induction order arbitrary: last_error calls)
  case Nil
  then show ?case
    by (auto simp: generate_failures_def split: option.splits)
next
  case (Cons q order)
  show ?case
  proof (cases "ps q")
    case None
    then show ?thesis
      using Cons.IH [of last_error calls] Cons.prems
      by (simp add: configured_def attempt_calls_def generate_failures_def)
  next
    case (Some a)
    then have pc: "port_contract a request" using Cons.prems(1) by simp
    then obtain b where hb: "health_check a = Inr b"
      by (auto simp: port_contract_def split: sum.splits)
    show ?thesis
    proof (cases b)
      case False
      then show ?thesis
        using Cons.IH [of last_error "calls @ [HealthCheck q]"] Cons.prems Some hb
        by (simp add: configured_def attempt_calls_def generate_failures_def provider_fails_def)
    next
      case True
      show ?thesis
      proof (cases "generate_response a request")
        case (Inr resp)
        then show ?thesis using Cons.prems(2) Some hb True by simp
      next
        case (Inl e)
        then have le: "is_LLMError e" using pc by (simp add: port_contract_def)
        have step: "fallback_loop ps request order (Some e) (calls @ [HealthCheck q, Generate q]) =
                    (Inl err, tr)"
          using Cons.prems(2) Some hb True Inl le by simp
        have ih: "(\<forall>q \<in> set order. configured ps q \<longrightarrow> provider_fails ps request q)
           \<and> tr = (calls @ [HealthCheck q, Generate q]) @ concat (map (attempt_calls ps) order)
           \<and> err = (case generate_failures ps request order of
                  [] \<Rightarrow> (case Some e of None \<Rightarrow> LLMError ''All LLM providers are unavailable''
                                          | Some e \<Rightarrow> e)
                | e # es \<Rightarrow> last (e # es))"
          using Cons.prems(1) by (intro Cons.IH [OF _ step]) simp
        have gf: "generate_failures ps request (q # order) = e # generate_failures ps request order"
          using Some hb True Inl by (simp add: generate_failures_def)
        have ac: "attempt_calls ps q = [HealthCheck q, Generate q]"
          using Some hb True by (simp add: attempt_calls_def)
        have pf: "provider_fails ps request q"
          using Some hb True Inl le by (simp add: provider_fails_def)
        show ?thesis
          using ih pf by (simp add: gf ac split: list.splits)
      qed
    qed
  qed
qed

lemma generate_failures_LLMError:
  assumes "\<forall>pt a. ps pt = Some a \<longrightarrow> port_contract a request"
      and "e \<in> set (generate_failures ps request order)"
  shows "is_LLMError e"
proof -
  obtain q where "e \<in> set (case ps q of
                          None \<Rightarrow> []
                        | Some a \<Rightarrow>
                            (case health_check a of
                               Inr True \<Rightarrow>
                                 (case generate_response a request of Inl e \<Rightarrow> [e] | Inr r \<Rightarrow> [])
                             | _ \<Rightarrow> []))"
    using assms(2) by (auto simp: generate_failures_def)
  then have "\<exists>a. ps q = Some a \<and> generate_response a request = Inl e"
    by (cases "ps q"; cases "health_check (the (ps q))";
        cases "generate_response (the (ps q)) request")
       (auto split: bool.splits)
  then obtain a where a: "ps q = Some a" "generate_response a request = Inl e"
    by blast
  then have "port_contract a request"
    using assms(1) by blast
  then show ?thesis
    using a(2) by (simp add: port_contract_def)
qed

text \<open>
  Claim C2.  With providers that keep the contract of \<open>LLMPort\<close>, whenever
  \<open>generate_with_fallback\<close> raises \<open>err\<close>: every candidate of the attempt order was skipped
  (unhealthy) or failed in generate; the calls made cover the whole attempt order, so the
  error was raised after the loop and no failure left the loop while candidates remained;
  \<open>err\<close> is the last failure of a generate call along the order, or the error "All LLM
  providers are unavailable" when there was none; and \<open>err\<close> has one of the four kinds.
\<close>

theorem fallback_raises_only_when_exhausted:
  assumes "\<forall>pt a. ps pt = Some a \<longrightarrow> port_contract a request"
      and "fst (generate_with_fallback (LLMRepository_init ps) request preferred) = Inl err"
  shows "(\<forall>q \<in> set (get_provider_order (LLMRepository_init ps) preferred).
            provider_fails ps request q)
       \<and> snd (generate_with_fallback (LLMRepository_init ps) request preferred) =
           concat (map (attempt_calls ps) (get_provider_order (LLMRepository_init ps) preferred))
       \<and> err = (case generate_failures ps request
                       (get_provider_order (LLMRepository_init ps) preferred) of
                  [] \<Rightarrow> LLMError ''All LLM providers are unavailable''
                | e # es \<Rightarrow> last (e # es))
       \<and> error_kind err \<noteq> None"
proof -
  let ?order = "get_provider_order (LLMRepository_init ps) preferred"
  obtain tr where run: "fallback_loop ps request ?order None [] = (Inl err, tr)"
    using assms(2) by (cases "fallback_loop ps request ?order None []")
      (simp add: generate_with_fallback_def providers_init)
  have "(\<forall>q \<in> set ?order. configured ps q \<longrightarrow> provider_fails ps request q)
       \<and> tr = [] @ concat (map (attempt_calls ps) ?order)
       \<and> err = (case generate_failures ps request ?order of
                  [] \<Rightarrow> (case None of None \<Rightarrow> LLMError ''All LLM providers are unavailable''
                                          | Some e \<Rightarrow> e)
                | e # es \<Rightarrow> last (e # es))"
    using assms(1) by (intro fallback_loop_exhausted [OF _ run]) simp
  then have ex: "(\<forall>q \<in> set ?order. configured ps q \<longrightarrow> provider_fails ps request q)
       \<and> tr = concat (map (attempt_calls ps) ?order)
       \<and> err = (case generate_failures ps request ?order of
                  [] \<Rightarrow> LLMError ''All LLM providers are unavailable''
                | e # es \<Rightarrow> last (e # es))"
    by (simp cong: list.case_cong)
  have kind: "error_kind err \<noteq> None"
  proof (cases "generate_failures ps request ?order")
    case Nil
    then show ?thesis using ex by simp
  next
    case (Cons e es)
    then have "err \<in> set (generate_failures ps request ?order)"
      using ex last_in_set [of "e # es"] by simp
    then have "is_LLMError err" using generate_failures_LLMError [OF assms(1)] by blast
    then show ?thesis by (cases err) simp_all
  qed
  show ?thesis
    using ex kind order_configured [of _ ps preferred]
    by (simp add: generate_with_fallback_def providers_init run)
qed

text \<open>
  Gemini raises a rate-limit error, Groq is unhealthy, OpenAI raises a timeout: the call
  raises the timeout, after all three were tried.  With no provider configured it raises
  the generic error.
\<close>

theorem fallback_raises_only_when_exhausted_witness:
  "fst (generate_with_fallback (LLMRepository_init failing_providers) example_request None) =
     Inl (LLMTimeoutError ''OpenAI request timeout: t'')
   \<and> snd (generate_with_fallback (LLMRepository_init failing_providers) example_request None) =
       [HealthCheck GEMINI, Generate GEMINI, HealthCheck GROQ, HealthCheck OPENAI, Generate OPENAI]
   \<and> fst (generate_with_fallback (LLMRepository_init Map.empty) example_request None) =
       Inl (LLMError ''All LLM providers are unavailable'')"
proof -
  have contract: "\<forall>pt a. failing_providers pt = Some a \<longrightarrow> port_contract a example_request"
    by (simp add: failing_providers_def port_failing_def port_unhealthy_def port_contract_def)
  have raised: "fst (generate_with_fallback (LLMRepository_init failing_providers) example_request None)
        = Inl (LLMTimeoutError ''OpenAI request timeout: t'')"
    by (simp add: failing_providers_def port_failing_def port_unhealthy_def generate_with_fallback_def LLMRepository_init_def get_provider_order_def configured_def priority_order_def)
  have "\<forall>pt a. Map.empty pt = Some a \<longrightarrow> port_contract a example_request"
    by simp
  moreover have "fst (generate_with_fallback (LLMRepository_init Map.empty) example_request None)
        = Inl (LLMError ''All LLM providers are unavailable'')"
    by (simp add: generate_with_fallback_def LLMRepository_init_def get_provider_order_def configured_def priority_order_def)
  ultimately show ?thesis
    using fallback_raises_only_when_exhausted [OF contract raised]
    by (simp add: attempt_calls_def failing_providers_def port_failing_def port_unhealthy_def generate_with_fallback_def LLMRepository_init_def get_provider_order_def configured_def priority_order_def)
qed

text \<open>
  The loop catches \<open>LLMError\<close> and its subclasses only: any other exception of a
  provider leaves \<open>generate_with_fallback\<close> at once.  This is why the statement of C2 is
  about providers that keep the contract of the port.
\<close>

lemma other_exception_leaves_loop:
  assumes "ps pt = Some a" and "health_check a = Inr True"
      and "generate_response a request = Inl e" and "\<not> is_LLMError e"
  shows "fallback_loop ps request (pt # rest) last_error calls =
           (Inl e, calls @ [HealthCheck pt, Generate pt])"
  using assms by simp

section \<open>The rate limiter: claims C4 and C5\<close>

lemma check_local_config:
  "check_local_rate_limit self client_id now = (accepted, self') \<Longrightarrow>
   requests_per_minute self' = requests_per_minute self \<and> window_seconds self' = window_seconds self"
  by (auto simp: check_local_rate_limit_def split: option.splits prod.splits if_splits)

lemma check_local_counts:
  assumes "1 \<le> requests_per_minute self"
      and "\<forall>cid c ws. local_cache self cid = Some (c, ws) \<longrightarrow> 1 \<le> c \<and> c \<le> requests_per_minute self"
      and "check_local_rate_limit self client_id now = (accepted, self')"
  shows "\<forall>cid c ws. local_cache self' cid = Some (c, ws) \<longrightarrow> 1 \<le> c \<and> c \<le> requests_per_minute self"
proof (intro allI impI)
  fix cid c ws
  assume stored: "local_cache self' cid = Some (c, ws)"
  show "1 \<le> c \<and> c \<le> requests_per_minute self"
  proof (cases "cid = client_id")
    case False
    then have "local_cache self' cid = local_cache self cid"
      using assms(3)
      by (auto simp: check_local_rate_limit_def split: option.splits prod.splits if_splits)
    then have "local_cache self cid = Some (c, ws)" using stored by simp
    then show ?thesis using assms(2) by blast
  next
    case True
    show ?thesis
    proof (cases "local_cache self client_id")
      case None
      then show ?thesis
        using assms(1,3) stored True by (auto simp: check_local_rate_limit_def)
    next
      case (Some entry)
      obtain c0 ws0 where entry: "entry = (c0, ws0)" by (cases entry)
      have "local_cache self client_id = Some (c0, ws0)"
        using Some entry by simp
      then have "1 \<le> c0 \<and> c0 \<le> requests_per_minute self"
        using assms(2) by blast
      then show ?thesis
        using assms(1,3) stored True Some entry
        by (auto simp: check_local_rate_limit_def split: if_splits)
    qed
  qed
qed

lemma run_local_checks_counts:
  assumes "1 \<le> requests_per_minute self"
      and "\<forall>cid c ws. local_cache self cid = Some (c, ws) \<longrightarrow> 1 \<le> c \<and> c \<le> requests_per_minute self"
      and "run_local_checks self reqs = (oks, self')"
  shows "(\<forall>cid c ws. local_cache self' cid = Some (c, ws) \<longrightarrow> 1 \<le> c \<and> c \<le> requests_per_minute self)
       \<and> requests_per_minute self' = requests_per_minute self
       \<and> window_seconds self' = window_seconds self"
  using assms
proof (induction reqs arbitrary: self oks)
  case Nil
  then show ?case by simp
next
  case (Cons req reqs)
  obtain client_id t where req: "req = (client_id, t)" by (cases req)
  obtain ok s1 where step: "check_local_rate_limit self client_id t = (ok, s1)"
    by (cases "check_local_rate_limit self client_id t")
  obtain oks1 where rest: "run_local_checks s1 reqs = (oks1, self')"
    using Cons.prems(3) req step by (auto split: prod.splits)
  have cfg: "requests_per_minute s1 = requests_per_minute self" "window_seconds s1 = window_seconds self"
    using check_local_config [OF step] by simp_all
  have inv: "\<forall>cid c ws. local_cache s1 cid = Some (c, ws) \<longrightarrow> 1 \<le> c \<and> c \<le> requests_per_minute s1"
    using check_local_counts [OF Cons.prems(1,2) step] cfg by simp
  show ?case
    using Cons.IH [OF _ inv rest] Cons.prems(1) cfg by simp
qed

text \<open>
  Claim C4.  Take a positive limit and any sequence of local checks, of any clients at any
  times, starting from the empty cache, and one more check of a client at time \<open>now\<close>.
  Before and after that check every stored count lies between 1 and the limit.  The check
  is rejected exactly when the client has an entry whose window has not expired and
  whose count has reached the limit.  The entry of the client becomes \<open>(1, now)\<close> when it
  had none or its window has expired (\<open>now - window_start \<ge> window_seconds\<close>); otherwise
  the window start is kept and the count grows by one when the check is accepted and
  stays when it is rejected.
\<close>

theorem local_rate_limit_window:
  assumes "1 \<le> limit"
      and "run_local_checks (RateLimitMiddleware_init limit window) reqs = (oks, self)"
      and "check_local_rate_limit self client_id now = (accepted, self')"
  shows "(\<forall>cid c ws. local_cache self cid = Some (c, ws) \<longrightarrow> 1 \<le> c \<and> c \<le> limit)
       \<and> (\<forall>cid c ws. local_cache self' cid = Some (c, ws) \<longrightarrow> 1 \<le> c \<and> c \<le> limit)
       \<and> (\<not> accepted \<longleftrightarrow>
            (\<exists>c ws. local_cache self client_id = Some (c, ws)
                   \<and> \<not> window_expired self ws now \<and> c \<ge> limit))
       \<and> (case local_cache self client_id of
            None \<Rightarrow> local_cache self' client_id = Some (1, now)
          | Some (c, ws) \<Rightarrow>
              if window_expired self ws now
              then local_cache self' client_id = Some (1, now)
              else local_cache self' client_id = Some (if accepted then c + 1 else c, ws))
       \<and> requests_per_minute self = limit \<and> window_seconds self = window"
proof -
  let ?init = "RateLimitMiddleware_init limit window"
  have init: "requests_per_minute ?init = limit" "window_seconds ?init = window"
    "local_cache ?init = Map.empty"
    by (simp_all add: RateLimitMiddleware_init_def)
  have reach: "(\<forall>cid c ws. local_cache self cid = Some (c, ws) \<longrightarrow> 1 \<le> c \<and> c \<le> requests_per_minute ?init)
       \<and> requests_per_minute self = requests_per_minute ?init
       \<and> window_seconds self = window_seconds ?init"
    using assms(1) by (intro run_local_checks_counts [OF _ _ assms(2)]) (simp_all add: init)
  then have inv: "\<forall>cid c ws. local_cache self cid = Some (c, ws) \<longrightarrow> 1 \<le> c \<and> c \<le> limit"
    and cfg: "requests_per_minute self = limit" "window_seconds self = window"
    by (simp_all add: init)
  have inv': "\<forall>cid c ws. local_cache self' cid = Some (c, ws) \<longrightarrow> 1 \<le> c \<and> c \<le> limit"
    using check_local_counts [OF _ _ assms(3)] inv assms(1) cfg by simp
  have decision: "\<not> accepted \<longleftrightarrow>
            (\<exists>c ws. local_cache self client_id = Some (c, ws)
                   \<and> \<not> window_expired self ws now \<and> c \<ge> limit)"
    using assms(3) cfg
    by (auto simp: check_local_rate_limit_def window_expired_def split: option.splits if_splits)
  have entry: "(case local_cache self client_id of
            None \<Rightarrow> local_cache self' client_id = Some (1, now)
          | Some (c, ws) \<Rightarrow>
              if window_expired self ws now
              then local_cache self' client_id = Some (1, now)
              else local_cache self' client_id = Some (if accepted then c + 1 else c, ws))"
    using assms(3)
    by (auto simp: check_local_rate_limit_def window_expired_def split: option.splits if_splits)
  show ?thesis
    using inv inv' decision entry cfg by blast
qed

text \<open>
  Limit 3 and window 60 seconds: the requests at 0, 10 and 20 are accepted, the request at
  30 is rejected with the count at 3, and the request at 60 is accepted with the entry
  reset to count 1.
\<close>

theorem local_rate_limit_window_witness:
  "fst (run_local_checks (RateLimitMiddleware_init 3 60)
          [(''ip:1'', 0), (''ip:1'', 10), (''ip:1'', 20), (''ip:1'', 30), (''ip:1'', 60)]) =
     [True, True, True, False, True]
   \<and> local_cache (snd (run_local_checks (RateLimitMiddleware_init 3 60)
          [(''ip:1'', 0), (''ip:1'', 10), (''ip:1'', 20), (''ip:1'', 30)])) ''ip:1'' = Some (3, 0)
   \<and> local_cache (snd (run_local_checks (RateLimitMiddleware_init 3 60)
          [(''ip:1'', 0), (''ip:1'', 10), (''ip:1'', 20), (''ip:1'', 30), (''ip:1'', 60)])) ''ip:1'' =
       Some (1, 60)"
proof -
  let ?self = "\<lparr>requests_per_minute = 3, window_seconds = 60,
                local_cache = [''ip:1'' \<mapsto> (3, 0)]\<rparr>"
  let ?self' = "\<lparr>requests_per_minute = 3, window_seconds = 60,
                local_cache = [''ip:1'' \<mapsto> (1, 60)]\<rparr>"
  have limit: "(1::int) \<le> 3" by simp
  have run: "run_local_checks (RateLimitMiddleware_init 3 60)
          [(''ip:1'', 0), (''ip:1'', 10), (''ip:1'', 20), (''ip:1'', 30)] =
        ([True, True, True, False], ?self)"
    by (simp add: RateLimitMiddleware_init_def check_local_rate_limit_def)
  have step: "check_local_rate_limit ?self ''ip:1'' 60 = (True, ?self')"
    by (simp add: check_local_rate_limit_def)
  show ?thesis
    using local_rate_limit_window [OF limit run step]
    by (simp add: RateLimitMiddleware_init_def check_local_rate_limit_def)
qed

text \<open>
  The bound on the stored counts needs the positive limit: the first check of a client
  stores the count 1 whatever the limit is.
\<close>

lemma first_check_stores_one:
  assumes "local_cache self client_id = None"
  shows "check_local_rate_limit self client_id now =
           (True, self\<lparr>local_cache := (local_cache self)(client_id \<mapsto> (1, now))\<rparr>)"
  using assms by (simp add: check_local_rate_limit_def)

text \<open>
  Claim C5 fails on the code.  With a connected repository whose Redis client raises on
  every command, five requests of one client under the limit 3 are all accepted and no
  local entry is ever created; the local path would have rejected the fourth and the
  fifth.
\<close>

theorem rate_limit_backend_raising_counterexample:
  "fst (run_checks (RateLimitMiddleware_init 3 60) raising_repository ''ip:1'' [0, 1, 2, 3, 4]) =
     [True, True, True, True, True]
   \<and> local_cache (fst (snd (run_checks (RateLimitMiddleware_init 3 60) raising_repository ''ip:1''
         [0, 1, 2, 3, 4]))) ''ip:1'' = None
   \<and> fst (run_local_checks (RateLimitMiddleware_init 3 60)
         [(''ip:1'', 0), (''ip:1'', 1), (''ip:1'', 2), (''ip:1'', 3), (''ip:1'', 4)]) =
     [True, True, True, False, False]"
  by (simp add: RateLimitMiddleware_init_def raising_repository_def raising_client_def
      check_rate_limit_def check_redis_rate_limit_def check_local_rate_limit_def
      cache_get_def cache_increment_def cache_expire_def ensure_connected_def parse_count_def)

lemma check_redis_get_raises:
  assumes "connected cache_repo"
      and "redis_get (redis cache_repo) (''rate_limit:'' @ client_id) = Inl e"
      and "0 < requests_per_minute self"
  shows "fst (check_redis_rate_limit self cache_repo client_id now) = True"
  using assms
  by (simp add: check_redis_rate_limit_def cache_get_def cache_increment_def cache_expire_def
      ensure_connected_def parse_count_def Let_def case_prod_beta split: sum.splits)

text \<open>
  Claim C5 as amended.  When the cache repository is not connected, the check is the local
  path: its decision and its update of the local entry.  When the repository is
  connected, the middleware and its local entries are left unchanged; and when moreover
  the read of the counter raises and the limit is positive, the request is accepted.
\<close>

theorem rate_limit_local_only_when_disconnected:
  "(\<not> connected cache_repo \<longrightarrow>
      check_rate_limit self cache_repo client_id now =
        (fst (check_local_rate_limit self client_id now),
         snd (check_local_rate_limit self client_id now), cache_repo))
   \<and> (connected cache_repo \<longrightarrow>
        fst (snd (check_rate_limit self cache_repo client_id now)) = self)
   \<and> (connected cache_repo
        \<and> (\<exists>e. redis_get (redis cache_repo) (''rate_limit:'' @ client_id) = Inl e)
        \<and> 0 < requests_per_minute self \<longrightarrow>
        fst (check_rate_limit self cache_repo client_id now) = True)"
proof (intro conjI impI)
  assume "\<not> connected cache_repo"
  then show "check_rate_limit self cache_repo client_id now =
        (fst (check_local_rate_limit self client_id now),
         snd (check_local_rate_limit self client_id now), cache_repo)"
    by (simp add: check_rate_limit_def case_prod_beta)
next
  assume "connected cache_repo"
  then show "fst (snd (check_rate_limit self cache_repo client_id now)) = self"
    by (simp add: check_rate_limit_def case_prod_beta)
next
  assume a: "connected cache_repo
        \<and> (\<exists>e. redis_get (redis cache_repo) (''rate_limit:'' @ client_id) = Inl e)
        \<and> 0 < requests_per_minute self"
  then obtain e where "redis_get (redis cache_repo) (''rate_limit:'' @ client_id) = Inl e"
    by blast
  then have "fst (check_redis_rate_limit self cache_repo client_id now) = True"
    using a check_redis_get_raises by blast
  then show "fst (check_rate_limit self cache_repo client_id now) = True"
    using a by (simp add: check_rate_limit_def case_prod_beta)
qed

text \<open>
  A client at its limit inside the window: rejected by the local path behind a
  repository that is not connected, accepted behind a connected one that raises, with
  the local entry untouched.
\<close>

theorem rate_limit_local_only_when_disconnected_witness:
  "check_rate_limit
     \<lparr>requests_per_minute = 3, window_seconds = 60, local_cache = [''ip:1'' \<mapsto> (3, 0)]\<rparr>
     unreachable_repository ''ip:1'' 10 =
     (False, \<lparr>requests_per_minute = 3, window_seconds = 60, local_cache = [''ip:1'' \<mapsto> (3, 0)]\<rparr>,
      unreachable_repository)
   \<and> fst (check_rate_limit
     \<lparr>requests_per_minute = 3, window_seconds = 60, local_cache = [''ip:1'' \<mapsto> (3, 0)]\<rparr>
     raising_repository ''ip:1'' 10) = True
   \<and> fst (snd (check_rate_limit
     \<lparr>requests_per_minute = 3, window_seconds = 60, local_cache = [''ip:1'' \<mapsto> (3, 0)]\<rparr>
     raising_repository ''ip:1'' 10)) =
     \<lparr>requests_per_minute = 3, window_seconds = 60, local_cache = [''ip:1'' \<mapsto> (3, 0)]\<rparr>"
  using rate_limit_local_only_when_disconnected
          [of unreachable_repository
              "\<lparr>requests_per_minute = 3, window_seconds = 60, local_cache = [''ip:1'' \<mapsto> (3, 0)]\<rparr>"
              "''ip:1''" 10]
        rate_limit_local_only_when_disconnected
          [of raising_repository
              "\<lparr>requests_per_minute = 3, window_seconds = 60, local_cache = [''ip:1'' \<mapsto> (3, 0)]\<rparr>"
              "''ip:1''" 10]
  by (simp add: unreachable_repository_def raising_repository_def raising_client_def
      check_local_rate_limit_def)

section \<open>The adapters: claims C6 to C10\<close>

subsection \<open>Shared facts\<close>


lemma make_LLMResponse_Inr:
  "make_LLMResponse c p mn ms = Inr r \<Longrightarrow>
   metrics r = ms \<and> provider r = p \<and> model_name r = mn \<and> c = Some (content r) \<and> strip (content r) \<noteq> []"
  by (auto simp: make_LLMResponse_def split: option.splits if_splits)

lemma strip_nonempty: "strip s \<noteq> [] \<Longrightarrow> s \<noteq> []"
  by (auto simp: strip_def)

lemma test_requests_valid:
  "make_LLMRequest Gemini_test_request = Inr Gemini_test_request"
  "make_LLMRequest Groq_test_request = Inr Groq_test_request"
  "make_LLMRequest OpenAI_test_request = Inr OpenAI_test_request"
  by (simp_all add: make_LLMRequest_def Gemini_test_request_def Groq_test_request_def
      OpenAI_test_request_def strip_def isspace_def)

lemma test_payloads:
  "Gemini_build_prompt_with_context Gemini_test_request = Inr ''Hello''"
  "Groq_build_messages Groq_test_request = Inr [\<lparr>msg_role = ''user'', msg_content = Scalar ''Hello''\<rparr>]"
  "OpenAI_build_messages OpenAI_test_request = Inr [\<lparr>msg_role = ''user'', msg_content = ''Hello''\<rparr>]"
  by (simp_all add: Gemini_build_prompt_with_context_def Groq_build_messages_def
      OpenAI_build_messages_def Gemini_test_request_def Groq_test_request_def
      OpenAI_test_request_def)

subsection \<open>Error kinds (C6)\<close>

lemma Gemini_raises_classified:
  assumes "fst (Gemini_generate_response self request backend ms) = Inl err"
  shows "\<exists>e. fst (Gemini_generate_body self request backend ms) = Inl e \<and> err = Gemini_except e"
  using assms
  by (cases "Gemini_generate_body self request backend ms")
     (auto simp: Gemini_generate_response_def split: sum.splits)

lemma Groq_raises_classified:
  assumes "fst (Groq_generate_response self request backend ms elapsed) = Inl err"
  shows "\<exists>e. fst (Groq_generate_body self request backend ms) = Inl e \<and> err = Groq_except elapsed e"
  using assms
  by (cases "Groq_generate_body self request backend ms")
     (auto simp: Groq_generate_response_def split: sum.splits)

lemma OpenAI_raises_classified:
  assumes "fst (OpenAI_generate_response self request backend ms) = Inl err"
  shows "\<exists>e. fst (OpenAI_generate_body self request backend ms) = Inl e \<and> err = OpenAI_except e"
  using assms
  by (cases "OpenAI_generate_body self request backend ms")
     (auto simp: OpenAI_generate_response_def split: sum.splits)

lemma Gemini_except_kind: "error_kind (Gemini_except e) = Some (spec_error_kind (str_exn e))"
  by (simp add: Gemini_except_def spec_error_kind_def)

lemma Groq_except_kind:
  "error_kind (Groq_except elapsed e) =
     Some (if e = AsyncioTimeoutError then Timeout
           else if py_in ''rate limit'' (lower (str_exn e)) then RateLimited
           else if py_in ''quota'' (lower (str_exn e)) \<or> py_in ''billing'' (lower (str_exn e))
           then QuotaExceeded
           else if py_in ''timeout'' (lower (str_exn e)) then Timeout
           else Generic)"
  by (simp add: Groq_except_def)

lemma OpenAI_except_kind:
  "error_kind (OpenAI_except e) =
     Some (case e of
             OpenAI_RateLimitError m \<Rightarrow> RateLimited
           | OpenAI_APITimeoutError m \<Rightarrow> Timeout
           | OpenAI_BadRequestError m \<Rightarrow>
               if py_in ''quota'' (lower m) \<or> py_in ''billing'' (lower m)
               then QuotaExceeded else Generic
           | _ \<Rightarrow> Generic)"
  by (cases e) simp_all

text \<open>
  Claim C6 fails on the code.  The Groq adapter raises a generic error on the message
  "Request limit reached", which holds "limit"; the OpenAI adapter raises a rate-limit
  error on a \<open>RateLimitError\<close> whose message holds "quota" and "billing".
\<close>

theorem error_kind_counterexample:
  "fst (Groq_generate_response (GroqAdapter_init ''k'' ''llama-3.1-8b-instant'') example_request
          (raising_chat_backend (OtherException ''Request limit reached'')) 12 ''0.01'') =
     Inl (LLMError ''Groq API error: Request limit reached'')
   \<and> spec_error_kind ''Request limit reached'' = RateLimited
   \<and> fst (OpenAI_generate_response (OpenAIAdapter_init ''k'' ''gpt-3.5-turbo'') example_request
          (raising_chat_backend
             (OpenAI_RateLimitError ''You exceeded your current quota, check your billing details''))
          12) =
     Inl (LLMRateLimitError
            ''OpenAI rate limit exceeded: You exceeded your current quota, check your billing details'')
   \<and> spec_error_kind ''You exceeded your current quota, check your billing details'' = QuotaExceeded"
  by code_simp

text \<open>
  Claim C6 as amended.  Every error the Gemini adapter raises from \<open>generate_response\<close>
  classifies the message of the exception caught: quota or billing gives QuotaExceeded,
  else rate or limit gives RateLimited, else timeout gives Timeout, else Generic.  The Groq
  adapter gives Timeout on \<open>asyncio.TimeoutError\<close>, else RateLimited on the phrase "rate
  limit", else QuotaExceeded on quota or billing, else Timeout on timeout, else Generic.
  The OpenAI adapter goes by the class of the exception: \<open>RateLimitError\<close> gives
  RateLimited, \<open>APITimeoutError\<close> gives Timeout, \<open>BadRequestError\<close> with quota or billing in
  its message gives QuotaExceeded, everything else gives Generic.
\<close>

theorem error_kind_per_adapter:
  "(fst (Gemini_generate_response self request text_backend ms) = Inl err \<longrightarrow>
      (\<exists>e. fst (Gemini_generate_body self request text_backend ms) = Inl e
          \<and> error_kind err = Some (spec_error_kind (str_exn e))))
   \<and> (fst (Groq_generate_response self request groq_backend ms elapsed) = Inl err \<longrightarrow>
      (\<exists>e. fst (Groq_generate_body self request groq_backend ms) = Inl e
          \<and> error_kind err =
              Some (if e = AsyncioTimeoutError then Timeout
                    else if py_in ''rate limit'' (lower (str_exn e)) then RateLimited
                    else if py_in ''quota'' (lower (str_exn e)) \<or> py_in ''billing'' (lower (str_exn e))
                    then QuotaExceeded
                    else if py_in ''timeout'' (lower (str_exn e)) then Timeout
                    else Generic)))
   \<and> (fst (OpenAI_generate_response self request openai_backend ms) = Inl err \<longrightarrow>
      (\<exists>e. fst (OpenAI_generate_body self request openai_backend ms) = Inl e
          \<and> error_kind err =
              Some (case e of
                      OpenAI_RateLimitError m \<Rightarrow> RateLimited
                    | OpenAI_APITimeoutError m \<Rightarrow> Timeout
                    | OpenAI_BadRequestError m \<Rightarrow>
                        if py_in ''quota'' (lower m) \<or> py_in ''billing'' (lower m)
                        then QuotaExceeded else Generic
                    | _ \<Rightarrow> Generic)))"
proof (intro conjI impI)
  assume "fst (Gemini_generate_response self request text_backend ms) = Inl err"
  then obtain e where "fst (Gemini_generate_body self request text_backend ms) = Inl e"
      and "err = Gemini_except e"
    using Gemini_raises_classified by blast
  then show "\<exists>e. fst (Gemini_generate_body self request text_backend ms) = Inl e
          \<and> error_kind err = Some (spec_error_kind (str_exn e))"
    using Gemini_except_kind by blast
next
  assume "fst (Groq_generate_response self request groq_backend ms elapsed) = Inl err"
  then obtain e where "fst (Groq_generate_body self request groq_backend ms) = Inl e"
      and "err = Groq_except elapsed e"
    using Groq_raises_classified by blast
  then show "\<exists>e. fst (Groq_generate_body self request groq_backend ms) = Inl e
          \<and> error_kind err =
              Some (if e = AsyncioTimeoutError then Timeout
                    else if py_in ''rate limit'' (lower (str_exn e)) then RateLimited
                    else if py_in ''quota'' (lower (str_exn e)) \<or> py_in ''billing'' (lower (str_exn e))
                    then QuotaExceeded
                    else if py_in ''timeout'' (lower (str_exn e)) then Timeout
                    else Generic)"
    using Groq_except_kind by blast
next
  assume "fst (OpenAI_generate_response self request openai_backend ms) = Inl err"
  then obtain e where "fst (OpenAI_generate_body self request openai_backend ms) = Inl e"
      and "err = OpenAI_except e"
    using OpenAI_raises_classified by blast
  then show "\<exists>e. fst (OpenAI_generate_body self request openai_backend ms) = Inl e
          \<and> error_kind err =
              Some (case e of
                      OpenAI_RateLimitError m \<Rightarrow> RateLimited
                    | OpenAI_APITimeoutError m \<Rightarrow> Timeout
                    | OpenAI_BadRequestError m \<Rightarrow>
                        if py_in ''quota'' (lower m) \<or> py_in ''billing'' (lower m)
                        then QuotaExceeded else Generic
                    | _ \<Rightarrow> Generic)"
    using OpenAI_except_kind by blast
qed

text \<open>
  A Gemini backend that raises "429 Quota exceeded, check billing" at every attempt: the
  adapter raises a quota error, as the classification of that message says.
\<close>

theorem error_kind_per_adapter_witness:
  "fst (Gemini_generate_response (GeminiAdapter_init ''k'' ''gemini-1.5-flash'') example_request
          (raising_text_backend (OtherException ''429 Quota exceeded, check billing''))
          12) =
     Inl (LLMQuotaExceededError ''Gemini quota exceeded: 429 Quota exceeded, check billing'')
   \<and> fst (Gemini_generate_body (GeminiAdapter_init ''k'' ''gemini-1.5-flash'') example_request
          (raising_text_backend (OtherException ''429 Quota exceeded, check billing''))
          12) =
     Inl (OtherException ''429 Quota exceeded, check billing'')
   \<and> spec_error_kind ''429 Quota exceeded, check billing'' = QuotaExceeded"
proof -
  have raised: "fst (Gemini_generate_response (GeminiAdapter_init ''k'' ''gemini-1.5-flash'')
          example_request
          (raising_text_backend (OtherException ''429 Quota exceeded, check billing'')) 12) =
     Inl (LLMQuotaExceededError ''Gemini quota exceeded: 429 Quota exceeded, check billing'')"
    by code_simp
  have body: "fst (Gemini_generate_body (GeminiAdapter_init ''k'' ''gemini-1.5-flash'')
          example_request
          (raising_text_backend (OtherException ''429 Quota exceeded, check billing'')) 12) =
     Inl (OtherException ''429 Quota exceeded, check billing'')"
    by code_simp
  show ?thesis
    using error_kind_per_adapter
            [where self = "GeminiAdapter_init ''k'' ''gemini-1.5-flash''"
               and request = example_request
               and text_backend =
                 "raising_text_backend (OtherException ''429 Quota exceeded, check billing'')"
               and ms = 12
               and err =
                 "LLMQuotaExceededError ''Gemini quota exceeded: 429 Quota exceeded, check billing''"]
          raised body
    by auto
qed

subsection \<open>History in the payload (C7)\<close>










subsection \<open>Retries (C8)\<close>

lemma backoff_trace_simps:
  "backoff_trace p 0 = [Invoke p]"
  "backoff_trace p 1 = [Invoke p, Sleep 1, Invoke p]"
  "backoff_trace p (Suc 0) = [Invoke p, Sleep (Suc 0), Invoke p]"
  "backoff_trace p 2 = [Invoke p, Sleep 1, Invoke p, Sleep 2, Invoke p]"
  by (simp_all add: backoff_trace_def upt_rec)

lemma Gemini_three_attempts:
  "\<exists>k\<le>2. Gemini_generate_with_retry backend p 3 = (Gemini_attempt backend p k, backoff_trace p k)
         \<and> (\<forall>i<k. \<exists>e. Gemini_attempt backend p i = Inl e)
         \<and> (k < 2 \<longrightarrow> (\<exists>t. Gemini_attempt backend p k = Inr t))"
proof -
  have upt: "[0..<3] = [0, 1, 2]" by (simp add: upt_rec)
  show ?thesis
  proof (cases "Gemini_attempt backend p 0")
    case (Inr t)
    then have "Gemini_generate_with_retry backend p 3 = (Gemini_attempt backend p 0, backoff_trace p 0)"
      by (simp add: Gemini_generate_with_retry_def upt backoff_trace_simps)
    then show ?thesis using Inr by (intro exI [of _ 0]) simp
  next
    case a0: (Inl e0)
    show ?thesis
    proof (cases "Gemini_attempt backend p 1")
      case (Inr t)
      then have "Gemini_generate_with_retry backend p 3 =
                   (Gemini_attempt backend p 1, backoff_trace p 1)"
        using a0 by (simp add: Gemini_generate_with_retry_def upt backoff_trace_simps)
      then show ?thesis using Inr a0 by (intro exI [of _ 1]) simp
    next
      case a1: (Inl e1)
      have run: "Gemini_generate_with_retry backend p 3 =
                   (Gemini_attempt backend p 2, backoff_trace p 2)"
        using a0 a1
        by (cases "Gemini_attempt backend p 2")
           (simp_all add: Gemini_generate_with_retry_def upt backoff_trace_simps)
      have "\<exists>e. Gemini_attempt backend p i = Inl e" if "i < 2" for i
      proof -
        have "i = 0 \<or> i = 1" using that by auto
        then show ?thesis using a0 a1 by auto
      qed
      then show ?thesis using run by (intro exI [of _ 2]) simp
    qed
  qed
qed

lemma Gemini_response_effects:
  assumes "Gemini_build_prompt_with_context request = Inr p"
      and "Gemini_generate_with_retry backend p 3 = (res, effects)"
  shows "snd (Gemini_generate_response self request backend ms) = effects"
    and "res = Inl e \<Longrightarrow> fst (Gemini_generate_response self request backend ms) = Inl (Gemini_except e)"
  using assms
  by (auto simp: Gemini_generate_response_def Gemini_generate_body_def Let_def
      split: sum.splits prod.splits)

lemma count_invokes: "length (filter is_Invoke (backoff_trace p k)) = Suc k"
  by (induction k) (simp_all add: backoff_trace_def)

text \<open>
  Claim C8 fails on the code.  When the first invocation times out and a second one would
  succeed, the Groq and the OpenAI adapter invoke their backend once and raise the
  timeout, without sleeping or invoking again; the Gemini adapter sleeps one second and
  invokes again.
\<close>

theorem retries_counterexample:
  "Groq_generate_response (GroqAdapter_init ''k'' ''llama-3.1-8b-instant'') example_request
     (flaky_chat_backend AsyncioTimeoutError) 12 ''0.01'' =
     (Inl (LLMTimeoutError ''Groq request timeout after 0.01s''),
      [Invoke [\<lparr>msg_role = ''user'', msg_content = Scalar ''Hello''\<rparr>]])
   \<and> OpenAI_generate_response (OpenAIAdapter_init ''k'' ''gpt-3.5-turbo'') example_request
       (flaky_chat_backend (OpenAI_APITimeoutError ''Request timed out.'')) 12 =
       (Inl (LLMTimeoutError ''OpenAI request timeout: Request timed out.''),
        [Invoke [\<lparr>msg_role = ''user'', msg_content = ''Hello''\<rparr>]])
   \<and> snd (Gemini_generate_response (GeminiAdapter_init ''k'' ''gemini-1.5-flash'') example_request
            (flaky_text_backend (OtherException ''504 Deadline Exceeded'')) 12) =
       [Invoke ''Hello'', Sleep 1, Invoke ''Hello'']"
  by code_simp

text \<open>
  Claim C8 as amended.  A generate call of the Gemini adapter that has built its prompt
  invokes the backend at most three times: for some \<open>k \<le> 2\<close> the attempts before \<open>k\<close> fail
  (an exception or an empty text), each followed by a sleep of \<open>2 ^ i\<close> seconds and a new
  invocation; attempt \<open>k\<close> succeeds unless \<open>k = 2\<close>; and when attempt \<open>k\<close> fails, the call
  raises that last failure, classified.  A generate call of the Groq or of the OpenAI
  adapter invokes the backend once, after building its messages, and raises the failure
  of that invocation, classified, without a retry.
\<close>

theorem retries_Gemini_only:
  "(Gemini_build_prompt_with_context request = Inr p \<longrightarrow>
      (\<exists>k\<le>2. snd (Gemini_generate_response self request text_backend ms) = backoff_trace p k
            \<and> (\<forall>i<k. \<exists>e. Gemini_attempt text_backend p i = Inl e)
            \<and> (k < 2 \<longrightarrow> (\<exists>t. Gemini_attempt text_backend p k = Inr t))
            \<and> (\<forall>e. Gemini_attempt text_backend p k = Inl e \<longrightarrow>
                  fst (Gemini_generate_response self request text_backend ms) =
                    Inl (Gemini_except e)))
      \<and> length (filter is_Invoke (snd (Gemini_generate_response self request text_backend ms))) \<le> 3)
   \<and> snd (Groq_generate_response self request groq_backend ms elapsed) =
       (case Groq_build_messages request of Inl e \<Rightarrow> [] | Inr messages \<Rightarrow> [Invoke messages])
   \<and> (\<forall>messages e. Groq_build_messages request = Inr messages \<and> groq_backend messages 0 = Inl e \<longrightarrow>
        fst (Groq_generate_response self request groq_backend ms elapsed) =
          Inl (Groq_except elapsed e))
   \<and> snd (OpenAI_generate_response self request openai_backend ms) =
       (case OpenAI_build_messages request of Inl e \<Rightarrow> [] | Inr messages \<Rightarrow> [Invoke messages])
   \<and> (\<forall>messages e. OpenAI_build_messages request = Inr messages \<and> openai_backend messages 0 = Inl e \<longrightarrow>
        fst (OpenAI_generate_response self request openai_backend ms) = Inl (OpenAI_except e))"
proof (intro conjI impI allI)
  assume built: "Gemini_build_prompt_with_context request = Inr p"
  obtain k where k: "k \<le> 2"
      "Gemini_generate_with_retry text_backend p 3 = (Gemini_attempt text_backend p k, backoff_trace p k)"
      "\<forall>i<k. \<exists>e. Gemini_attempt text_backend p i = Inl e"
      "k < 2 \<longrightarrow> (\<exists>t. Gemini_attempt text_backend p k = Inr t)"
    using Gemini_three_attempts [of text_backend p] by blast
  have eff: "snd (Gemini_generate_response self request text_backend ms) = backoff_trace p k"
    using Gemini_response_effects(1) [OF built k(2)] .
  have surf: "\<forall>e. Gemini_attempt text_backend p k = Inl e \<longrightarrow>
                  fst (Gemini_generate_response self request text_backend ms) = Inl (Gemini_except e)"
    using Gemini_response_effects(2) [OF built k(2)] by simp
  show "\<exists>k\<le>2. snd (Gemini_generate_response self request text_backend ms) = backoff_trace p k
            \<and> (\<forall>i<k. \<exists>e. Gemini_attempt text_backend p i = Inl e)
            \<and> (k < 2 \<longrightarrow> (\<exists>t. Gemini_attempt text_backend p k = Inr t))
            \<and> (\<forall>e. Gemini_attempt text_backend p k = Inl e \<longrightarrow>
                  fst (Gemini_generate_response self request text_backend ms) =
                    Inl (Gemini_except e))"
    using k(1,3,4) eff surf by blast
  show "length (filter is_Invoke (snd (Gemini_generate_response self request text_backend ms))) \<le> 3"
    using k(1) by (simp add: eff count_invokes)
next
  show "snd (Groq_generate_response self request groq_backend ms elapsed) =
       (case Groq_build_messages request of Inl e \<Rightarrow> [] | Inr messages \<Rightarrow> [Invoke messages])"
    by (simp add: Groq_generate_response_def Groq_generate_body_def split: sum.splits)
next
  fix messages e
  assume "Groq_build_messages request = Inr messages \<and> groq_backend messages 0 = Inl e"
  then show "fst (Groq_generate_response self request groq_backend ms elapsed) =
          Inl (Groq_except elapsed e)"
    by (simp add: Groq_generate_response_def Groq_generate_body_def)
next
  show "snd (OpenAI_generate_response self request openai_backend ms) =
       (case OpenAI_build_messages request of Inl e \<Rightarrow> [] | Inr messages \<Rightarrow> [Invoke messages])"
    by (simp add: OpenAI_generate_response_def OpenAI_generate_body_def split: sum.splits)
next
  fix messages e
  assume "OpenAI_build_messages request = Inr messages \<and> openai_backend messages 0 = Inl e"
  then show "fst (OpenAI_generate_response self request openai_backend ms) = Inl (OpenAI_except e)"
    by (simp add: OpenAI_generate_response_def OpenAI_generate_body_def)
qed

theorem retries_Gemini_only_witness:
  "Gemini_generate_response (GeminiAdapter_init ''k'' ''gemini-1.5-flash'') example_request
     (raising_text_backend (OtherException ''503 unavailable'')) 12 =
     (Inl (LLMError ''Gemini generation failed: 503 unavailable''),
      [Invoke ''Hello'', Sleep 1, Invoke ''Hello'', Sleep 2, Invoke ''Hello''])
   \<and> Groq_generate_response (GroqAdapter_init ''k'' ''llama-3.1-8b-instant'') example_request
     (raising_chat_backend (OtherException ''503 unavailable'')) 12 ''0.01'' =
     (Inl (LLMError ''Groq API error: 503 unavailable''),
      [Invoke [\<lparr>msg_role = ''user'', msg_content = Scalar ''Hello''\<rparr>]])"
proof -
  have built: "Gemini_build_prompt_with_context example_request = Inr ''Hello''"
    by (simp add: Gemini_build_prompt_with_context_def example_request_def)
  have gemini: "Gemini_generate_response (GeminiAdapter_init ''k'' ''gemini-1.5-flash'') example_request
     (raising_text_backend (OtherException ''503 unavailable'')) 12 =
     (Inl (LLMError ''Gemini generation failed: 503 unavailable''),
      [Invoke ''Hello'', Sleep 1, Invoke ''Hello'', Sleep 2, Invoke ''Hello''])"
    by code_simp
  have groq: "Groq_generate_response (GroqAdapter_init ''k'' ''llama-3.1-8b-instant'') example_request
     (raising_chat_backend (OtherException ''503 unavailable'')) 12 ''0.01'' =
     (Inl (LLMError ''Groq API error: 503 unavailable''),
      [Invoke [\<lparr>msg_role = ''user'', msg_content = Scalar ''Hello''\<rparr>]])"
    by code_simp
  show ?thesis
    using retries_Gemini_only
            [of example_request "''Hello''" "GeminiAdapter_init ''k'' ''gemini-1.5-flash''"
                "raising_text_backend (OtherException ''503 unavailable'')" 12
                "raising_chat_backend (OtherException ''503 unavailable'')" "''0.01''"
                "raising_chat_backend (OtherException ''503 unavailable'')"]
          built gemini groq
    by simp
qed

subsection \<open>Cost (C9)\<close>






subsection \<open>Health checks (C10)\<close>

lemma Groq_response_content:
  assumes "fst (Groq_generate_response self request backend ms elapsed) = Inr r"
  shows "content r \<noteq> []"
proof -
  obtain response where "Groq_read_reply self response ms = Inr r"
    using assms
    by (auto simp: Groq_generate_response_def Groq_generate_body_def
        split: sum.splits prod.splits)
  then have "strip (content r) \<noteq> []"
    by (auto simp: Groq_read_reply_def Let_def split: list.splits option.splits sum.splits
        dest: make_LLMResponse_Inr)
  then show ?thesis by (rule strip_nonempty)
qed

lemma Gemini_all_attempts_fail:
  assumes "\<forall>i<3. \<exists>e. text_backend full_prompt i = Inl e"
  shows "\<exists>e. fst (Gemini_generate_with_retry text_backend full_prompt 3) = Inl e"
proof -
  have upt: "[0..<3] = [0, 1, 2]" by (simp add: upt_rec)
  obtain e0 e1 e2 where "text_backend full_prompt 0 = Inl e0" "text_backend full_prompt 1 = Inl e1"
    "text_backend full_prompt 2 = Inl e2"
    using assms by (metis numeral_3_eq_3 lessI less_SucI zero_less_Suc One_nat_def numeral_2_eq_2)
  then show ?thesis
    by (simp add: Gemini_generate_with_retry_def upt Gemini_attempt_def)
qed

text \<open>
  Claim C10.  For every adapter, every backend, every measured time and either outcome
  of the probe's timeout, \<open>health_check\<close> returns a Boolean and never raises.  It returns
  \<open>True\<close> exactly when the timeout does not fire (Gemini, OpenAI) and \<open>generate_response\<close>
  on the test request returns a response.  In particular it returns \<open>False\<close> when the
  backend raises at every invocation of the probe.
\<close>

theorem health_check_never_raises:
  "Gemini_health_check self text_backend ms timed_out =
     Inr (\<not> timed_out \<and>
          (\<exists>r. fst (Gemini_generate_response self Gemini_test_request text_backend ms) = Inr r))
   \<and> Groq_health_check self groq_backend ms elapsed =
       Inr (\<exists>r. fst (Groq_generate_response self Groq_test_request groq_backend ms elapsed) = Inr r)
   \<and> OpenAI_health_check self openai_backend ms timed_out =
       Inr (\<not> timed_out \<and>
            (\<exists>r. fst (OpenAI_generate_response self OpenAI_test_request openai_backend ms) = Inr r))
   \<and> ((\<forall>i<3. \<exists>e. text_backend ''Hello'' i = Inl e) \<longrightarrow>
        Gemini_health_check self text_backend ms timed_out = Inr False)
   \<and> ((\<exists>e. groq_backend [\<lparr>msg_role = ''user'', msg_content = Scalar ''Hello''\<rparr>] 0 = Inl e) \<longrightarrow>
        Groq_health_check self groq_backend ms elapsed = Inr False)
   \<and> ((\<exists>e. openai_backend [\<lparr>msg_role = ''user'', msg_content = ''Hello''\<rparr>] 0 = Inl e) \<longrightarrow>
        OpenAI_health_check self openai_backend ms timed_out = Inr False)"
proof (intro conjI impI)
  show "Gemini_health_check self text_backend ms timed_out =
     Inr (\<not> timed_out \<and>
          (\<exists>r. fst (Gemini_generate_response self Gemini_test_request text_backend ms) = Inr r))"
    by (simp add: Gemini_health_check_def test_requests_valid split: sum.splits)
  show "Groq_health_check self groq_backend ms elapsed =
       Inr (\<exists>r. fst (Groq_generate_response self Groq_test_request groq_backend ms elapsed) = Inr r)"
    using Groq_response_content [of self Groq_test_request groq_backend ms elapsed]
    by (simp add: Groq_health_check_def test_requests_valid split: sum.splits)
  show "OpenAI_health_check self openai_backend ms timed_out =
       Inr (\<not> timed_out \<and>
            (\<exists>r. fst (OpenAI_generate_response self OpenAI_test_request openai_backend ms) = Inr r))"
    by (simp add: OpenAI_health_check_def test_requests_valid split: sum.splits)
next
  assume "\<forall>i<3. \<exists>e. text_backend ''Hello'' i = Inl e"
  then obtain e where "fst (Gemini_generate_with_retry text_backend ''Hello'' 3) = Inl e"
    using Gemini_all_attempts_fail by blast
  then have "\<exists>e. fst (Gemini_generate_response self Gemini_test_request text_backend ms) = Inl e"
    by (cases "Gemini_generate_with_retry text_backend ''Hello'' 3")
       (simp add: Gemini_generate_response_def Gemini_generate_body_def test_payloads)
  then show "Gemini_health_check self text_backend ms timed_out = Inr False"
    by (auto simp: Gemini_health_check_def test_requests_valid)
next
  assume "\<exists>e. groq_backend [\<lparr>msg_role = ''user'', msg_content = Scalar ''Hello''\<rparr>] 0 = Inl e"
  then have "\<exists>e. fst (Groq_generate_response self Groq_test_request groq_backend ms elapsed) = Inl e"
    by (auto simp: Groq_generate_response_def Groq_generate_body_def test_payloads)
  then show "Groq_health_check self groq_backend ms elapsed = Inr False"
    by (auto simp: Groq_health_check_def test_requests_valid)
next
  assume "\<exists>e. openai_backend [\<lparr>msg_role = ''user'', msg_content = ''Hello''\<rparr>] 0 = Inl e"
  then have "\<exists>e. fst (OpenAI_generate_response self OpenAI_test_request openai_backend ms) = Inl e"
    by (auto simp: OpenAI_generate_response_def OpenAI_generate_body_def test_payloads)
  then show "OpenAI_health_check self openai_backend ms timed_out = Inr False"
    by (auto simp: OpenAI_health_check_def test_requests_valid)
qed

text \<open>
  A Gemini backend that always raises gives \<open>False\<close>; working Groq and OpenAI backends give
  \<open>True\<close>; a working OpenAI backend whose probe runs into the timeout gives \<open>False\<close>.
\<close>

theorem health_check_never_raises_witness:
  "Gemini_health_check (GeminiAdapter_init ''k'' ''gemini-1.5-flash'')
     (raising_text_backend (OtherException ''503 unavailable'')) 12 False = Inr False
   \<and> Groq_health_check (GroqAdapter_init ''k'' ''llama-3.1-8b-instant'') ok_chat_backend 12 ''0.01'' =
       Inr True
   \<and> OpenAI_health_check (OpenAIAdapter_init ''k'' ''gpt-3.5-turbo'') ok_chat_backend 12 True =
       Inr False
   \<and> OpenAI_health_check (OpenAIAdapter_init ''k'' ''gpt-3.5-turbo'') ok_chat_backend 12 False =
       Inr True"
proof -
  have fails: "\<forall>i<3. \<exists>e. raising_text_backend (OtherException ''503 unavailable'') ''Hello'' i = Inl e"
    by (simp add: raising_text_backend_def)
  have groq: "\<exists>r. fst (Groq_generate_response (GroqAdapter_init ''k'' ''llama-3.1-8b-instant'')
                    Groq_test_request ok_chat_backend 12 ''0.01'') = Inr r"
    by (simp add: Groq_generate_response_def Groq_generate_body_def Groq_read_reply_def
        test_payloads ok_chat_backend_def example_completion_def make_ResponseMetrics_def
        make_LLMResponse_def strip_def isspace_def GroqAdapter_init_def)
  have openai: "\<exists>r. fst (OpenAI_generate_response (OpenAIAdapter_init ''k'' ''gpt-3.5-turbo'')
                    OpenAI_test_request ok_chat_backend 12) = Inr r"
    by (simp add: OpenAI_generate_response_def OpenAI_generate_body_def OpenAI_read_reply_def
        test_payloads ok_chat_backend_def example_completion_def make_ResponseMetrics_def
        make_LLMResponse_def strip_def isspace_def OpenAIAdapter_init_def calculate_cost_def)
  have gemini_down: "Gemini_health_check (GeminiAdapter_init ''k'' ''gemini-1.5-flash'')
     (raising_text_backend (OtherException ''503 unavailable'')) 12 False = Inr False"
    using health_check_never_raises
            [of "GeminiAdapter_init ''k'' ''gemini-1.5-flash''"
                "raising_text_backend (OtherException ''503 unavailable'')" 12 False
                ok_chat_backend "''0.01''" ok_chat_backend]
          fails
    by blast
  have groq_up: "Groq_health_check (GroqAdapter_init ''k'' ''llama-3.1-8b-instant'') ok_chat_backend
     12 ''0.01'' = Inr True"
    using health_check_never_raises
            [of "GroqAdapter_init ''k'' ''llama-3.1-8b-instant''" ok_text_backend 12 False
                ok_chat_backend "''0.01''" ok_chat_backend]
          groq
    by simp
  have openai_late: "OpenAI_health_check (OpenAIAdapter_init ''k'' ''gpt-3.5-turbo'') ok_chat_backend
     12 True = Inr False"
    using health_check_never_raises
            [of "OpenAIAdapter_init ''k'' ''gpt-3.5-turbo''" ok_text_backend 12 True
                ok_chat_backend "''0.01''" ok_chat_backend]
    by simp
  have openai_up: "OpenAI_health_check (OpenAIAdapter_init ''k'' ''gpt-3.5-turbo'') ok_chat_backend
     12 False = Inr True"
    using health_check_never_raises
            [of "OpenAIAdapter_init ''k'' ''gpt-3.5-turbo''" ok_text_backend 12 False
                ok_chat_backend "''0.01''" ok_chat_backend]
          openai
    by simp
  show ?thesis
    using gemini_down groq_up openai_late openai_up by simp
qed

subsection \<open>The adapters keep the contract of the port\<close>

lemma except_is_LLMError:
  "is_LLMError (Gemini_except e)" "is_LLMError (Groq_except elapsed e)" "is_LLMError (OpenAI_except e)"
proof -
  show "is_LLMError (Gemini_except e)" by (simp add: Gemini_except_def)
  show "is_LLMError (Groq_except elapsed e)" by (simp add: Groq_except_def)
  show "is_LLMError (OpenAI_except e)" by (cases e) simp_all
qed

text \<open>
  Each adapter, with any backend, is a provider that keeps the contract of \<open>LLMPort\<close>: its
  \<open>health_check\<close> returns a Boolean and its \<open>generate_response\<close> raises only \<open>LLMError\<close>
  and its subclasses.  The providers of the repository are such adapters.
\<close>

lemma adapters_keep_port_contract:
  "port_contract (Gemini_port self text_backend ms timed_out) request"
  "port_contract (Groq_port self groq_backend ms elapsed) request"
  "port_contract (OpenAI_port self openai_backend ms timed_out) request"
proof -
  show "port_contract (Gemini_port self text_backend ms timed_out) request"
    using Gemini_raises_classified [of self request text_backend ms]
    by (auto simp: port_contract_def Gemini_port_def Gemini_health_check_def test_requests_valid
        except_is_LLMError split: sum.splits)
  show "port_contract (Groq_port self groq_backend ms elapsed) request"
    using Groq_raises_classified [of self request groq_backend ms elapsed]
    by (auto simp: port_contract_def Groq_port_def Groq_health_check_def test_requests_valid
        except_is_LLMError split: sum.splits)
  show "port_contract (OpenAI_port self openai_backend ms timed_out) request"
    using OpenAI_raises_classified [of self request openai_backend ms]
    by (auto simp: port_contract_def OpenAI_port_def OpenAI_health_check_def test_requests_valid
        except_is_LLMError split: sum.splits)
qed

end
